theory Spec2Isabelle
  imports Complex_Main "HOL-Library.Word" "HOL-Library.AList"
begin

section \<open>Identities and errors\<close>

text \<open>A \<^verbatim>\<open>uuid.UUID\<close> is a 128-bit identifier.\<close>

type_synonym uid = "128 word"

text \<open>The Python exceptions raised by the modelled methods.\<close>

datatype error =
    KeyError
  | AttributeError
  | TypeError
  | ValueError
  | AssertionError

section \<open>The workspace tree and \<^verbatim>\<open>Entity.set_parent\<close> (geoh5io/shared/entity.py)\<close>

text \<open>
  \<^verbatim>\<open>workspace.tree\<close> is a dict from uid to a dict holding the keys
  \<^verbatim>\<open>"parent"\<close> and \<^verbatim>\<open>"children"\<close>. The parent key may not have been
  written yet; the children list is a Python list (ordered, duplicates possible).
\<close>

record node =
  parent :: "uid option"
  children :: "uid list"

text \<open>
  The part of the workspace that \<^verbatim>\<open>set_parent\<close> reads and writes.
  \<^verbatim>\<open>root_uid\<close> stands for \<^verbatim>\<open>workspace.get_entity("Workspace")[0].uid\<close>,
  a method of the workspace class.
\<close>

record workspace =
  root_uid :: uid
  tree :: "uid \<rightharpoonup> node"

text \<open>The argument of \<^verbatim>\<open>set_parent\<close>: a UUID, an Entity (known by its uid), or anything else.\<close>

datatype parent_arg = ByUUID uid | ByEntity uid | ByOther

fun resolve_parent :: "workspace \<Rightarrow> parent_arg \<Rightarrow> uid" where
  "resolve_parent ws (ByUUID u) = u"
| "resolve_parent ws (ByEntity u) = u"
| "resolve_parent ws ByOther = root_uid ws"

text \<open>
  \<^verbatim>\<open>set_parent\<close> mutates the tree in place; a \<^verbatim>\<open>KeyError\<close> of the second
  lookup happens after the parent pointer was written, so the workspace is returned with
  the outcome.
\<close>

definition set_parent :: "workspace \<Rightarrow> uid \<Rightarrow> parent_arg \<Rightarrow> workspace \<times> error option" where
  "set_parent ws self_uid p =
     (let u = resolve_parent ws p in
      case tree ws self_uid of
        None \<Rightarrow> (ws, Some KeyError)
      | Some n \<Rightarrow>
          (let ws1 = ws\<lparr>tree := (tree ws)(self_uid \<mapsto> n\<lparr>parent := Some u\<rparr>)\<rparr> in
           case tree ws1 u of
             None \<Rightarrow> (ws1, Some KeyError)
           | Some pn \<Rightarrow>
               if self_uid \<notin> set (children pn)
               then (ws1\<lparr>tree := (tree ws1)(u \<mapsto> pn\<lparr>children := children pn @ [self_uid]\<rparr>)\<rparr>, None)
               else (ws1, None)))"

text \<open>\<^verbatim>\<open>workspace.tree[u]["parent"]\<close> and \<^verbatim>\<open>workspace.tree[u]["children"]\<close> as lookups.\<close>

definition parent_of :: "workspace \<Rightarrow> uid \<Rightarrow> uid option" where
  "parent_of ws u = (case tree ws u of None \<Rightarrow> None | Some n \<Rightarrow> parent n)"

definition children_of :: "workspace \<Rightarrow> uid \<Rightarrow> uid list" where
  "children_of ws u = (case tree ws u of None \<Rightarrow> [] | Some n \<Rightarrow> children n)"

text \<open>A small workspace: root 1, two groups 2 and 3 under the root, an entity 4 under the root.\<close>

definition tree0 :: "uid \<rightharpoonup> node" where
  "tree0 = [1 \<mapsto> \<lparr>parent = None, children = [2, 3, 4]\<rparr>,
            2 \<mapsto> \<lparr>parent = Some 1, children = []\<rparr>,
            3 \<mapsto> \<lparr>parent = Some 1, children = []\<rparr>,
            4 \<mapsto> \<lparr>parent = Some 1, children = []\<rparr>]"

definition ws0 :: workspace where
  "ws0 = \<lparr>root_uid = 1, tree = tree0\<rparr>"

definition ws1 :: workspace where
  "ws1 = fst (set_parent ws0 4 (ByUUID 2))"

definition ws2 :: workspace where
  "ws2 = fst (set_parent ws1 4 (ByUUID 3))"

section \<open>Data entities (geoh5py/data/data.py)\<close>

text \<open>
  Modelled from the spec: the members of \<^verbatim>\<open>DataAssociationEnum\<close> and of
  \<^verbatim>\<open>PrimitiveTypeEnum\<close>, whose modules are not part of the sources at hand
  (association in VERTEX, CELL, FACE, OBJECT; values float, int, text, referenced, filename).
\<close>

datatype DataAssociationEnum = VERTEX | CELL | FACE | OBJECT

datatype PrimitiveTypeEnum = FLOAT | INTEGER | TEXT | REFERENCED | FILENAME

text \<open>The fields of a \<^verbatim>\<open>DataType\<close> that \<^verbatim>\<open>Data\<close> reads and writes.\<close>

record DataType =
  dt_uid :: uid
  dt_name :: string
  primitive_type :: PrimitiveTypeEnum

text \<open>
  The private fields of a \<^verbatim>\<open>Data\<close> instance. \<^verbatim>\<open>cls_primitive_type\<close> is what the
  abstract class method \<^verbatim>\<open>primitive_type()\<close> returns for the instance's concrete class.
\<close>

record Data =
  d_uid :: uid
  d_name :: string
  cls_primitive_type :: PrimitiveTypeEnum
  association :: "DataAssociationEnum option"
  on_file :: bool
  entity_type :: DataType
  d_values :: "real list option"

text \<open>The element counts of the parent object that \<^verbatim>\<open>n_values\<close> reads.\<close>

record parent_object =
  n_vertices :: "nat option"
  n_cells :: "nat option"
  n_faces :: "nat option"

text \<open>
  The calls \<^verbatim>\<open>workspace.update_attribute(entity, attribute)\<close> made so far,
  oldest first. The workspace class is not part of the sources at hand; only the fact
  of the call is recorded.
\<close>

type_synonym update_log = "(uid \<times> string) list"

text \<open>
  The setter of \<^verbatim>\<open>entity_type\<close>: stores the descriptor and notifies the workspace.
  It compares nothing.
\<close>

definition set_entity_type :: "Data \<Rightarrow> DataType \<Rightarrow> update_log \<Rightarrow> Data \<times> update_log" where
  "set_entity_type d data_type ulog =
     (d\<lparr>entity_type := data_type\<rparr>, ulog @ [(d_uid d, ''entity_type'')])"

text \<open>
  \<^verbatim>\<open>Entity.__init__(name, uid)\<close> of geoh5io/shared/entity.py: a given uid must not be
  nil; without one, \<^verbatim>\<open>uuid.uuid4()\<close> draws a fresh one, here the argument \<^verbatim>\<open>fresh\<close>.
\<close>

definition Entity_init :: "string \<Rightarrow> uid option \<Rightarrow> uid \<Rightarrow> error + (uid \<times> string)" where
  "Entity_init nm given fresh =
     (case given of
        Some u \<Rightarrow> if u = 0 then Inl AssertionError else Inr (u, nm)
      | None \<Rightarrow> Inr (fresh, nm))"

text \<open>
  \<^verbatim>\<open>Data.__init__(data_type, **kwargs)\<close> for a concrete class whose
  \<^verbatim>\<open>primitive_type()\<close> is \<^verbatim>\<open>cls\<close>. The keyword arguments are the name and the
  uid passed on to \<^verbatim>\<open>Entity.__init__\<close>. The descriptor named "Entity" takes the
  name of the data. The final registration with the workspace is not modelled.
\<close>

definition Data_init ::
  "PrimitiveTypeEnum \<Rightarrow> DataType option \<Rightarrow> string \<Rightarrow> uid option \<Rightarrow> uid \<Rightarrow> update_log
     \<Rightarrow> error + (Data \<times> update_log)" where
  "Data_init cls data_type nm given fresh ulog =
     (case data_type of
        None \<Rightarrow> Inl AssertionError
      | Some dt \<Rightarrow>
          if primitive_type dt \<noteq> cls then Inl AssertionError
          else
            (case Entity_init nm given fresh of
               Inl e \<Rightarrow> Inl e
             | Inr (u, nm') \<Rightarrow>
                 (let d = \<lparr>d_uid = u, d_name = nm', cls_primitive_type = cls,
                           association = None, on_file = False,
                           entity_type = dt, d_values = None\<rparr>;
                      d' = (if dt_name (entity_type d) = ''Entity''
                            then d\<lparr>entity_type := (entity_type d)\<lparr>dt_name := d_name d\<rparr>\<rparr>
                            else d)
                  in Inr (d', ulog @ [(u, ''entity_type'')]))))"

text \<open>The property \<^verbatim>\<open>n_values\<close>, read against the parent object.\<close>

definition n_values :: "Data \<Rightarrow> parent_object \<Rightarrow> nat option" where
  "n_values d par =
     (if association d = Some VERTEX then n_vertices par
      else if association d = Some CELL then n_cells par
      else if association d = Some FACE then n_faces par
      else if association d = Some OBJECT then Some 1
      else None)"

text \<open>The getter of \<^verbatim>\<open>values\<close>: \<^verbatim>\<open>return self._values\<close>.\<close>

definition Data_values :: "Data \<Rightarrow> real list option" where
  "Data_values d = d_values d"

text \<open>
  The setter of \<^verbatim>\<open>association\<close>. A string is upper-cased and looked up among the
  members of the enumeration; anything that is neither a string nor a member is refused.
\<close>

datatype association_arg = AssocStr string | AssocEnum DataAssociationEnum | AssocOther

definition upper_char :: "char \<Rightarrow> char" where
  "upper_char c =
     (if 97 \<le> (of_char c :: nat) \<and> (of_char c :: nat) \<le> 122
      then char_of ((of_char c :: nat) - 32) else c)"

definition association_member :: "string \<Rightarrow> DataAssociationEnum option" where
  "association_member s =
     (if s = ''VERTEX'' then Some VERTEX
      else if s = ''CELL'' then Some CELL
      else if s = ''FACE'' then Some FACE
      else if s = ''OBJECT'' then Some OBJECT
      else None)"

definition set_association :: "Data \<Rightarrow> association_arg \<Rightarrow> error + Data" where
  "set_association d v =
     (case v of
        AssocStr s \<Rightarrow>
          (case association_member (map upper_char s) of
             None \<Rightarrow> Inl ValueError
           | Some a \<Rightarrow> Inr (d\<lparr>association := Some a\<rparr>))
      | AssocEnum a \<Rightarrow> Inr (d\<lparr>association := Some a\<rparr>)
      | AssocOther \<Rightarrow> Inl TypeError)"

text \<open>
  Modelled from the spec: the lazy getter of \<^verbatim>\<open>values\<close> of the concrete data classes
  and \<^verbatim>\<open>Workspace.fetch_array_attribute\<close>, neither of which is part of the sources
  at hand (data.py holds the abstract base class, whose getter returns the cache, and the
  concrete classes define the property anew). In the spec's words: if cached, return; else
  if \<^verbatim>\<open>on_file\<close>, call \<^verbatim>\<open>fetch_array_attribute\<close>, cache, return; else return
  null. The store is the argument \<^verbatim>\<open>fetch_array_attribute\<close>; the entity is returned
  with the value.
\<close>

definition values_getter_spec ::
  "(uid \<Rightarrow> string \<Rightarrow> real list option) \<Rightarrow> Data \<Rightarrow> Data \<times> real list option" where
  "values_getter_spec fetch_array_attribute d =
     (case d_values d of
        Some v \<Rightarrow> (d, Some v)
      | None \<Rightarrow>
          if on_file d
          then (d\<lparr>d_values := fetch_array_attribute (d_uid d) ''values''\<rparr>,
                fetch_array_attribute (d_uid d) ''values'')
          else (d, None))"

text \<open>
  Modelled from the spec: the setter of \<^verbatim>\<open>values\<close>. data.py declares the getter only;
  the setter belongs to the concrete data classes, which are not part of the sources at
  hand. In the spec's words: validate the length against the association-derived expected
  length \<^verbatim>\<open>n_values\<close> (failing with \<^verbatim>\<open>ShapeMismatch\<close> and no mutation), cache,
  call \<^verbatim>\<open>update_attribute\<close>, set \<^verbatim>\<open>on_file\<close>. The entity and the log are returned
  with the outcome.
\<close>

datatype spec_error = ShapeMismatch

definition values_setter_spec ::
  "Data \<Rightarrow> parent_object \<Rightarrow> real list \<Rightarrow> update_log \<Rightarrow> (Data \<times> update_log) \<times> spec_error option" where
  "values_setter_spec d par v ulog =
     (case n_values d par of
        Some n \<Rightarrow>
          if length v \<noteq> n then ((d, ulog), Some ShapeMismatch)
          else ((d\<lparr>d_values := Some v, on_file := True\<rparr>, ulog @ [(d_uid d, ''values'')]), None)
      | None \<Rightarrow>
          ((d\<lparr>d_values := Some v, on_file := True\<rparr>, ulog @ [(d_uid d, ''values'')]), None))"

text \<open>Sample data: a float descriptor, an integer descriptor, a parent with four vertices.\<close>

definition float_type :: DataType where
  "float_type = \<lparr>dt_uid = 7, dt_name = ''Entity'', primitive_type = FLOAT\<rparr>"

definition integer_type :: DataType where
  "integer_type = \<lparr>dt_uid = 8, dt_name = ''Count'', primitive_type = INTEGER\<rparr>"

definition quad :: parent_object where
  "quad = \<lparr>n_vertices = Some 4, n_cells = Some 2, n_faces = None\<rparr>"

definition tmi_new :: Data where
  "tmi_new = \<lparr>d_uid = 9, d_name = ''TMI'', cls_primitive_type = FLOAT,
              association = None, on_file = False,
              entity_type = float_type\<lparr>dt_name := ''TMI''\<rparr>, d_values = None\<rparr>"

definition tmi :: Data where
  "tmi = tmi_new\<lparr>association := Some VERTEX\<rparr>"

definition tmi_filled :: Data where
  "tmi_filled = fst (fst (values_setter_spec tmi quad [1, 2, 3, 4] []))"

text \<open>
  More sample data: the same entity flagged as on file with nothing cached, the same entity
  with the association CELL, a workspace store that holds four values for it, and an
  empty store.
\<close>

definition tmi_on_file :: Data where
  "tmi_on_file = tmi\<lparr>on_file := True\<rparr>"

definition tmi_cell :: Data where
  "tmi_cell = tmi_new\<lparr>association := Some CELL\<rparr>"

definition store0 :: "uid \<Rightarrow> string \<Rightarrow> real list option" where
  "store0 u a = (if u = 9 \<and> a = ''values'' then Some [1, 2, 3, 4] else None)"

definition no_store :: "uid \<Rightarrow> string \<Rightarrow> real list option" where
  "no_store u a = None"

section \<open>The corners of a \<^verbatim>\<open>GeoImage\<close> (geoh5py/objects/geo_image.py)\<close>

text \<open>
  What the vertices setter can be given: a number, or a (nested) Python list. A numpy array
  is such a nest that is rectangular. \<^verbatim>\<open>shape_of\<close> is the shape numpy finds for it;
  a ragged nest has none (\<^verbatim>\<open>np.asarray\<close> raises \<^verbatim>\<open>ValueError\<close> on it, or
  builds a one-dimensional object array in older versions; either way the setter ends in
  \<^verbatim>\<open>ValueError\<close>).
\<close>

datatype pyobj = Num real | Lst "pyobj list"

fun shape_of :: "pyobj \<Rightarrow> nat list option" where
  "shape_of (Num x) = Some []"
| "shape_of (Lst xs) =
     (case map shape_of xs of
        [] \<Rightarrow> Some [0]
      | s # ss \<Rightarrow>
          (case s of
             None \<Rightarrow> None
           | Some sh \<Rightarrow> if (\<forall>t \<in> set ss. t = Some sh) then Some (length xs # sh) else None))"

text \<open>The rows of a two-dimensional array, as lists of numbers.\<close>

fun elems :: "pyobj \<Rightarrow> pyobj list" where
  "elems (Lst xs) = xs"
| "elems (Num x) = []"

fun num_of :: "pyobj \<Rightarrow> real" where
  "num_of (Num x) = x"
| "num_of (Lst xs) = 0"

definition rows_of :: "pyobj \<Rightarrow> real list list" where
  "rows_of a = map (\<lambda>r. map num_of (elems r)) (elems a)"

text \<open>The argument of the setter: a list, a numpy array, or any other object.\<close>

datatype vertices_arg = ArgList "pyobj list" | ArgArray pyobj | ArgOther

fun arg_array :: "vertices_arg \<Rightarrow> pyobj option" where
  "arg_array (ArgList l) = Some (Lst l)"
| "arg_array (ArgArray a) = Some a"
| "arg_array ArgOther = None"

definition arg_shape :: "vertices_arg \<Rightarrow> nat list option" where
  "arg_shape xyz = (case arg_array xyz of None \<Rightarrow> None | Some a \<Rightarrow> shape_of a)"

text \<open>
  \<^verbatim>\<open>np.core.records.fromarrays(xyz.T, names="x, y, z", ...)\<close>: three columns become
  one array of records with the fields x, y and z.
\<close>

fun fromarrays :: "real list list \<Rightarrow> (real \<times> real \<times> real) list option" where
  "fromarrays [xs, ys, zs] = Some (zip xs (zip ys zs))"
| "fromarrays _ = None"

text \<open>
  The fields of a \<^verbatim>\<open>GeoImage\<close> that the vertices property reads and writes.
  \<^verbatim>\<open>gi_image_size\<close> is \<^verbatim>\<open>self.image.size\<close> (width, height) when the object has
  an image child; decoding the image is the work of PIL.
\<close>

record GeoImage =
  gi_uid :: uid
  gi_vertices :: "(real \<times> real \<times> real) list option"
  gi_on_file :: bool
  gi_image_size :: "(nat \<times> nat) option"

text \<open>The setter of \<^verbatim>\<open>vertices\<close>.\<close>

definition set_vertices :: "GeoImage \<Rightarrow> vertices_arg \<Rightarrow> update_log \<Rightarrow> error + (GeoImage \<times> update_log)" where
  "set_vertices g xyz ulog =
     (case (case xyz of ArgList l \<Rightarrow> Some (Lst l) | ArgArray a \<Rightarrow> Some a | ArgOther \<Rightarrow> None) of
        None \<Rightarrow> Inl ValueError
      | Some a \<Rightarrow>
          if shape_of a \<noteq> Some [4, 3] then Inl ValueError
          else
            (case fromarrays (transpose (rows_of a)) of
               None \<Rightarrow> Inl ValueError
             | Some recs \<Rightarrow> Inr (g\<lparr>gi_vertices := Some recs\<rparr>, ulog @ [(gi_uid g, ''vertices'')])))"

text \<open>The property \<^verbatim>\<open>default_vertices\<close>: the corners in pixel coordinates.\<close>

definition default_vertices :: "GeoImage \<Rightarrow> pyobj option" where
  "default_vertices g =
     (case gi_image_size g of
        Some (w, h) \<Rightarrow>
          Some (Lst [Lst [Num 0, Num (real h), Num 0],
                     Lst [Num (real w), Num (real h), Num 0],
                     Lst [Num (real w), Num 0, Num 0],
                     Lst [Num 0, Num 0, Num 0]])
      | None \<Rightarrow> None)"

text \<open>
  The getter of \<^verbatim>\<open>vertices\<close>. \<^verbatim>\<open>fetch_array_attribute\<close> is the workspace's method,
  a parameter here. The stored records are viewed as floats and reshaped to rows of three.
\<close>

definition get_vertices ::
  "GeoImage \<Rightarrow> (uid \<Rightarrow> string \<Rightarrow> (real \<times> real \<times> real) list option) \<Rightarrow> update_log
     \<Rightarrow> error + (GeoImage \<times> update_log \<times> real list list option)" where
  "get_vertices g fetch_array_attribute ulog =
     (let g1 = (if gi_vertices g = None \<and> gi_on_file g
                then g\<lparr>gi_vertices := fetch_array_attribute (gi_uid g) ''vertices''\<rparr> else g);
          r = (if gi_vertices g1 = None \<and> gi_image_size g1 \<noteq> None
               then (case default_vertices g1 of
                       None \<Rightarrow> Inl ValueError
                     | Some dv \<Rightarrow> set_vertices g1 (ArgArray dv) ulog)
               else Inr (g1, ulog))
      in case r of
           Inl e \<Rightarrow> Inl e
         | Inr (g2, ulog2) \<Rightarrow>
             (case gi_vertices g2 of
                Some recs \<Rightarrow> Inr (g2, ulog2, Some (map (\<lambda>(x, y, z). [x, y, z]) recs))
              | None \<Rightarrow> Inr (g2, ulog2, None)))"

text \<open>Sample data: an image object without vertices, and four corners.\<close>

definition corners :: "pyobj list" where
  "corners = [Lst [Num 0, Num 2, Num 0], Lst [Num 5, Num 2, Num 0],
              Lst [Num 5, Num 0, Num 0], Lst [Num 0, Num 0, Num 0]]"

definition geo0 :: GeoImage where
  "geo0 = \<lparr>gi_uid = 11, gi_vertices = None, gi_on_file = False, gi_image_size = None\<rparr>"

definition geo1 :: GeoImage where
  "geo1 = geo0\<lparr>gi_vertices := Some [(0, 2, 0), (5, 2, 0), (5, 0, 0), (0, 0, 0)]\<rparr>"

text \<open>
  More sample data: the image object flagged as on file, the image object with an image of
  5 by 2 pixels, an empty workspace store, a store holding four vertex records for the
  object and a store holding two.
\<close>

definition geo_file :: GeoImage where
  "geo_file = geo0\<lparr>gi_on_file := True\<rparr>"

definition geo_img :: GeoImage where
  "geo_img = geo0\<lparr>gi_image_size := Some (5, 2)\<rparr>"

definition no_vertices :: "uid \<Rightarrow> string \<Rightarrow> (real \<times> real \<times> real) list option" where
  "no_vertices u a = None"

definition store_four :: "uid \<Rightarrow> string \<Rightarrow> (real \<times> real \<times> real) list option" where
  "store_four u a =
     (if u = 11 \<and> a = ''vertices'' then Some [(0, 2, 0), (5, 2, 0), (5, 0, 0), (0, 0, 0)]
      else None)"

definition store_two :: "uid \<Rightarrow> string \<Rightarrow> (real \<times> real \<times> real) list option" where
  "store_two u a =
     (if u = 11 \<and> a = ''vertices'' then Some [(0, 0, 0), (1, 1, 0)] else None)"

section \<open>EM surveys (geoh5py/objects/surveys/electromagnetics/base.py)\<close>

text \<open>
  The fields of a \<^verbatim>\<open>PropertyGroup\<close> that the survey reads: its name and the ordered
  uids of its properties.
\<close>

record PropertyGroup =
  pg_name :: string
  pg_properties :: "uid list"

text \<open>
  The Python values that the metadata dictionary and the arguments of \<^verbatim>\<open>edit_metadata\<close>
  hold. A dict is an association list in insertion order: \<^verbatim>\<open>AList.update\<close> replaces
  in place or appends, as assignment to a dict key does.
\<close>

datatype pyval =
    VNone
  | VStr string
  | VFloat real
  | VUid uid
  | VGroup PropertyGroup
  | VList "pyval list"
  | VDict "(string \<times> pyval) list"

type_synonym pydict = "(string \<times> pyval) list"

text \<open>Truth value, \<^verbatim>\<open>len\<close>, \<^verbatim>\<open>in\<close> and \<^verbatim>\<open>append\<close> of Python on these values.\<close>

fun truthy :: "pyval \<Rightarrow> bool" where
  "truthy VNone = False"
| "truthy (VStr s) = (s \<noteq> [])"
| "truthy (VFloat x) = (x \<noteq> 0)"
| "truthy (VUid u) = True"
| "truthy (VGroup g) = True"
| "truthy (VList xs) = (xs \<noteq> [])"
| "truthy (VDict kvs) = (kvs \<noteq> [])"

fun py_len :: "pyval \<Rightarrow> error + nat" where
  "py_len (VStr s) = Inr (length s)"
| "py_len (VList xs) = Inr (length xs)"
| "py_len (VDict kvs) = Inr (length kvs)"
| "py_len _ = Inl TypeError"

fun infix_of :: "string \<Rightarrow> string \<Rightarrow> bool" where
  "infix_of xs [] = (xs = [])"
| "infix_of xs (y # ys) = (take (length xs) (y # ys) = xs \<or> infix_of xs ys)"

fun str_in :: "string \<Rightarrow> pyval \<Rightarrow> error + bool" where
  "str_in s (VList xs) = Inr (VStr s \<in> set xs)"
| "str_in s (VDict kvs) = Inr (s \<in> set (map fst kvs))"
| "str_in s (VStr t) = Inr (infix_of s t)"
| "str_in s _ = Inl TypeError"

fun append_str :: "pyval \<Rightarrow> string \<Rightarrow> error + pyval" where
  "append_str (VList xs) s = Inr (VList (xs @ [VStr s]))"
| "append_str _ s = Inl AttributeError"

text \<open>
  The paired receivers or transmitters entity, with its metadata. The survey itself:
  \<^verbatim>\<open>em_dataset\<close> is \<^verbatim>\<open>self.metadata["EM Dataset"]\<close>, \<^verbatim>\<open>sv_children\<close> the Data
  children, \<^verbatim>\<open>next_uid\<close> the uid that \<^verbatim>\<open>uuid.uuid4()\<close> draws next, and
  \<^verbatim>\<open>receivers\<close>, \<^verbatim>\<open>transmitters\<close> what the properties of these names return.
\<close>

record complement =
  cm_uid :: uid
  cm_metadata :: pydict

record survey =
  sv_uid :: uid
  em_dataset :: pydict
  property_groups :: "PropertyGroup list"
  sv_children :: "uid list"
  next_uid :: uid
  receivers :: "complement option"
  transmitters :: "complement option"

text \<open>The property \<^verbatim>\<open>channels\<close>: \<^verbatim>\<open>self.metadata["EM Dataset"]["Channels"]\<close>.\<close>

definition channels :: "survey \<Rightarrow> error + pyval" where
  "channels s = (case map_of (em_dataset s) ''Channels'' of None \<Rightarrow> Inl KeyError | Some v \<Rightarrow> Inr v)"

text \<open>
  Modelled from the spec: \<^verbatim>\<open>find_or_create_property_group\<close>, \<^verbatim>\<open>add_data_to_group\<close>
  and \<^verbatim>\<open>add_data\<close> of \<^verbatim>\<open>ObjectBase\<close>, which is not part of the sources at hand
  (a PropertyGroup is a named ordered collection of Data uids; add_component_data
  creates or updates one; new Data get a new uid and the survey as parent).
\<close>

definition find_or_create_property_group :: "survey \<Rightarrow> string \<Rightarrow> survey \<times> PropertyGroup" where
  "find_or_create_property_group s nm =
     (case find (\<lambda>g. pg_name g = nm) (property_groups s) of
        Some g \<Rightarrow> (s, g)
      | None \<Rightarrow>
          (s\<lparr>property_groups := property_groups s @ [\<lparr>pg_name = nm, pg_properties = []\<rparr>]\<rparr>,
           \<lparr>pg_name = nm, pg_properties = []\<rparr>))"

definition add_data_to_group :: "survey \<Rightarrow> uid list \<Rightarrow> string \<Rightarrow> survey \<times> PropertyGroup" where
  "add_data_to_group s uids nm =
     (let (s1, g) = find_or_create_property_group s nm;
          g' = g\<lparr>pg_properties := pg_properties g @ uids\<rparr>
      in (s1\<lparr>property_groups :=
               map (\<lambda>h. if pg_name h = nm then g' else h) (property_groups s1)\<rparr>, g'))"

definition add_data :: "survey \<Rightarrow> string \<Rightarrow> pydict \<Rightarrow> survey \<times> uid" where
  "add_data s channel attr =
     (s\<lparr>sv_children := sv_children s @ [next_uid s], next_uid := next_uid s + 1\<rparr>, next_uid s)"

text \<open>
  One round of the loop of \<^verbatim>\<open>_edit_validate_property_groups\<close>, and the loop. The
  metadata is mutated in place, so the survey is returned with the outcome.
\<close>

definition validate_one :: "survey \<Rightarrow> pyval \<Rightarrow> survey \<times> error option" where
  "validate_one s val =
     (case (case val of
              VGroup g \<Rightarrow> Some g
            | VStr nm \<Rightarrow> if nm \<in> set (map pg_name (property_groups s))
                          then Some (snd (find_or_create_property_group s nm)) else None
            | _ \<Rightarrow> None) of
        None \<Rightarrow> (s, Some TypeError)
      | Some prop_group \<Rightarrow>
          (case channels s of
             Inl e \<Rightarrow> (s, Some e)
           | Inr ch \<Rightarrow>
               (case py_len ch of
                  Inl e \<Rightarrow> (s, Some e)
                | Inr n \<Rightarrow>
                    if length (pg_properties prop_group) \<noteq> n then (s, Some ValueError)
                    else
                      (case map_of (em_dataset s) ''Property groups'' of
                         None \<Rightarrow> (s, Some KeyError)
                       | Some names \<Rightarrow>
                           (case str_in (pg_name prop_group) names of
                              Inl e \<Rightarrow> (s, Some e)
                            | Inr True \<Rightarrow> (s, None)
                            | Inr False \<Rightarrow>
                                (case append_str names (pg_name prop_group) of
                                   Inl e \<Rightarrow> (s, Some e)
                                 | Inr names' \<Rightarrow>
                                     (s\<lparr>em_dataset :=
                                          AList.update ''Property groups'' names' (em_dataset s)\<rparr>,
                                      None)))))))"

fun validate_all :: "survey \<Rightarrow> pyval list \<Rightarrow> survey \<times> error option" where
  "validate_all s [] = (s, None)"
| "validate_all s (val # vals) =
     (case validate_one s val of
        (s', Some e) \<Rightarrow> (s', Some e)
      | (s', None) \<Rightarrow> validate_all s' vals)"

text \<open>\<^verbatim>\<open>_edit_validate_property_groups(value)\<close>.\<close>

definition edit_validate_property_groups :: "survey \<Rightarrow> pyval \<Rightarrow> survey \<times> error option" where
  "edit_validate_property_groups s v =
     (let s1 = (if v = VNone
                then s\<lparr>em_dataset := AList.update ''Property groups'' (VList []) (em_dataset s)\<rparr>
                else s)
      in validate_all s1 (case v of VList vs \<Rightarrow> vs | _ \<Rightarrow> [v]))"

text \<open>One round of the loop of \<^verbatim>\<open>edit_metadata\<close>, and the loop.\<close>

definition edit_entry :: "survey \<Rightarrow> string \<Rightarrow> pyval \<Rightarrow> survey \<times> error option" where
  "edit_entry s key v =
     (if key \<in> set [''Discretization'', ''Timing mark'', ''Waveform''] then
        (let em = (if ''Waveform'' \<notin> set (map fst (em_dataset s))
                   then AList.update ''Waveform'' (VDict []) (em_dataset s)
                   else em_dataset s);
             wave_key = (if key = ''Waveform'' then ''Discretization'' else key)
         in case map_of em ''Waveform'' of
              Some (VDict w) \<Rightarrow>
                (s\<lparr>em_dataset := AList.update ''Waveform'' (VDict (AList.update wave_key v w)) em\<rparr>,
                 None)
            | _ \<Rightarrow> (s\<lparr>em_dataset := em\<rparr>, Some TypeError))
      else if key = ''Property groups'' then edit_validate_property_groups s v
      else if v = VNone then
        (if key \<in> set (map fst (em_dataset s))
         then (s\<lparr>em_dataset := AList.delete key (em_dataset s)\<rparr>, None)
         else (s, None))
      else (s\<lparr>em_dataset := AList.update key v (em_dataset s)\<rparr>, None))"

fun edit_entries :: "survey \<Rightarrow> (string \<times> pyval) list \<Rightarrow> survey \<times> error option" where
  "edit_entries s [] = (s, None)"
| "edit_entries s ((key, v) # rest) =
     (case edit_entry s key v of
        (s', Some e) \<Rightarrow> (s', Some e)
      | (s', None) \<Rightarrow> edit_entries s' rest)"

text \<open>
  Modelled from the spec: the metadata setter of the paired entity's class, which base.py
  leaves to the child classes (the updated metadata is propagated to the paired entity).
\<close>

definition set_metadata :: "complement \<Rightarrow> pydict \<Rightarrow> complement" where
  "set_metadata c md = c\<lparr>cm_metadata := md\<rparr>"

text \<open>\<^verbatim>\<open>edit_metadata(entries)\<close>: the loop, then the update of the paired entities.\<close>

definition edit_metadata :: "survey \<Rightarrow> (string \<times> pyval) list \<Rightarrow> survey \<times> error option" where
  "edit_metadata s entries =
     (case edit_entries s entries of
        (s', Some e) \<Rightarrow> (s', Some e)
      | (s', None) \<Rightarrow>
          (let s1 = (case receivers s' of
                       None \<Rightarrow> s'
                     | Some r \<Rightarrow> s'\<lparr>receivers := Some (set_metadata r (em_dataset s'))\<rparr>);
               s2 = (case transmitters s1 of
                       None \<Rightarrow> s1
                     | Some t \<Rightarrow> s1\<lparr>transmitters := Some (set_metadata t (em_dataset s1))\<rparr>)
           in (s2, None)))"

text \<open>
  The argument of \<^verbatim>\<open>add_component_data\<close>: a dict from component names to component
  blocks, or any other object. A block is a list of entries (each a \<^verbatim>\<open>FloatData\<close>
  with its uid and its parent's uid, or something else), a dict from channels to attribute
  dicts (\<^verbatim>\<open>None\<close> for a value that is not a dict), or any other object.
\<close>

datatype block_entry = FloatData uid uid | NotFloatData

datatype component_block =
    BlockList "block_entry list"
  | BlockDict "(string \<times> pydict option) list"
  | BlockOther

datatype data_arg = DataDict "(string \<times> component_block) list" | DataOther

fun is_FloatData :: "block_entry \<Rightarrow> bool" where
  "is_FloatData (FloatData u p) = True"
| "is_FloatData NotFloatData = False"

fun entry_uid :: "block_entry \<Rightarrow> uid" where
  "entry_uid (FloatData u p) = u"
| "entry_uid NotFloatData = 0"

fun entry_parent :: "block_entry \<Rightarrow> uid option" where
  "entry_parent (FloatData u p) = Some p"
| "entry_parent NotFloatData = None"

fun block_len :: "component_block \<Rightarrow> nat option" where
  "block_len (BlockList es) = Some (length es)"
| "block_len (BlockDict kvs) = Some (length kvs)"
| "block_len BlockOther = None"

text \<open>The checks at the head of the loop body of \<^verbatim>\<open>add_component_data\<close>.\<close>

definition validate_component :: "survey \<Rightarrow> string \<Rightarrow> component_block \<Rightarrow> error option" where
  "validate_component s nm block =
     (if nm \<in> set (map pg_name (property_groups s)) then Some ValueError
      else if block = BlockOther
              \<or> (case block of BlockList es \<Rightarrow> \<not> list_all is_FloatData es | _ \<Rightarrow> False)
           then Some TypeError
      else
        (case channels s of
           Inl e \<Rightarrow> Some e
         | Inr ch \<Rightarrow>
             (case py_len ch of
                Inl e \<Rightarrow> Some e
              | Inr n \<Rightarrow> if block_len block \<noteq> Some n then Some ValueError else None)))"

text \<open>The inner loop over the channels of a dict block.\<close>

fun add_channels :: "survey \<Rightarrow> (string \<times> pydict option) list \<Rightarrow> uid list \<Rightarrow> survey \<times> (error + uid list)" where
  "add_channels s [] data_list = (s, Inr data_list)"
| "add_channels s ((channel, attr) # rest) data_list =
     (case attr of
        None \<Rightarrow> (s, Inl TypeError)
      | Some a \<Rightarrow>
          (let (s', u) = add_data s channel a
           in add_channels s' rest (data_list @ [u])))"

text \<open>The tail of the loop body: group the data, record the group in the metadata.\<close>

definition group_component :: "survey \<Rightarrow> uid list \<Rightarrow> string \<Rightarrow> survey \<times> (error + PropertyGroup)" where
  "group_component s data_list nm =
     (let (s1, prop_group) = add_data_to_group s data_list nm
      in case edit_metadata s1 [(''Property groups'', VGroup prop_group)] of
           (s2, Some e) \<Rightarrow> (s2, Inl e)
         | (s2, None) \<Rightarrow> (s2, Inr prop_group))"

text \<open>The loop body, and the loop over the components.\<close>

definition add_component :: "survey \<Rightarrow> string \<Rightarrow> component_block \<Rightarrow> survey \<times> (error + PropertyGroup)" where
  "add_component s nm block =
     (case validate_component s nm block of
        Some e \<Rightarrow> (s, Inl e)
      | None \<Rightarrow>
          (case block of
             BlockList es \<Rightarrow>
               if list_all (\<lambda>entry. entry_parent entry = Some (sv_uid s)) es
               then group_component s (map entry_uid es) nm
               else (s, Inl AssertionError)
           | BlockDict kvs \<Rightarrow>
               (case add_channels s kvs [] of
                  (s', Inl e) \<Rightarrow> (s', Inl e)
                | (s', Inr data_list) \<Rightarrow> group_component s' data_list nm)
           | BlockOther \<Rightarrow> (s, Inl TypeError)))"

fun add_components ::
  "survey \<Rightarrow> (string \<times> component_block) list \<Rightarrow> PropertyGroup list
     \<Rightarrow> survey \<times> (error + PropertyGroup list)" where
  "add_components s [] prop_groups = (s, Inr prop_groups)"
| "add_components s ((nm, block) # rest) prop_groups =
     (case add_component s nm block of
        (s', Inl e) \<Rightarrow> (s', Inl e)
      | (s', Inr prop_group) \<Rightarrow> add_components s' rest (prop_groups @ [prop_group]))"

text \<open>
  \<^verbatim>\<open>add_component_data(data)\<close>. The final \<^verbatim>\<open>workspace.finalize()\<close> changes
  nothing of the survey.
\<close>

definition add_component_data :: "survey \<Rightarrow> data_arg \<Rightarrow> survey \<times> (error + PropertyGroup list)" where
  "add_component_data s data =
     (case channels s of
        Inl e \<Rightarrow> (s, Inl e)
      | Inr ch \<Rightarrow>
          if ch = VNone \<or> \<not> truthy ch then (s, Inl AttributeError)
          else
            (case data of
               DataOther \<Rightarrow> (s, Inl TypeError)
             | DataDict items \<Rightarrow> add_components s items []))"

text \<open>
  Sample data: a survey with two channels, two FloatData children 21 and 22 and paired
  receivers; the component dictionaries used below; the survey after component "A".
\<close>

definition survey0 :: survey where
  "survey0 = \<lparr>sv_uid = 20,
              em_dataset = [(''Channels'', VList [VFloat 1, VFloat 2]),
                            (''Input type'', VStr ''Tx and Rx''),
                            (''Property groups'', VList [])],
              property_groups = [], sv_children = [21, 22], next_uid = 100,
              receivers = Some \<lparr>cm_uid = 30, cm_metadata = []\<rparr>, transmitters = None\<rparr>"

definition data_A :: data_arg where
  "data_A = DataDict [(''A'', BlockList [FloatData 21 20, FloatData 22 20])]"

definition data_AB :: data_arg where
  "data_AB = DataDict [(''A'', BlockList [FloatData 21 20, FloatData 22 20]),
                       (''B'', BlockList [FloatData 21 20])]"

definition group_A :: PropertyGroup where
  "group_A = \<lparr>pg_name = ''A'', pg_properties = [21, 22]\<rparr>"

definition survey_A :: survey where
  "survey_A = survey0\<lparr>
      em_dataset := [(''Channels'', VList [VFloat 1, VFloat 2]),
                     (''Input type'', VStr ''Tx and Rx''),
                     (''Property groups'', VList [VStr ''A''])],
      property_groups := [group_A],
      receivers := Some \<lparr>cm_uid = 30,
                         cm_metadata = [(''Channels'', VList [VFloat 1, VFloat 2]),
                                        (''Input type'', VStr ''Tx and Rx''),
                                        (''Property groups'', VList [VStr ''A''])]\<rparr>\<rparr>"

definition data_B :: data_arg where
  "data_B = DataDict [(''B'', BlockList [FloatData 21 20])]"

text \<open>
  The relation between the survey before and after a round of the loop that the proofs
  below use: no property group name is lost and \<^verbatim>\<open>channels\<close> reads the same.
\<close>

definition grows :: "survey \<Rightarrow> survey \<Rightarrow> bool" where
  "grows s s' \<longleftrightarrow>
     set (map pg_name (property_groups s)) \<subseteq> set (map pg_name (property_groups s'))
     \<and> channels s' = channels s"

section \<open>Transmitter ids of a copied Ground TEM pair (geoh5py/objects/surveys/electromagnetics/ground_tem.py)\<close>

text \<open>
  The values of a \<^verbatim>\<open>tx_id_property\<close> are integers, one for each vertex of a receivers
  entity and one for each cell of a transmitters entity. \<^verbatim>\<open>np.unique\<close> returns the sorted
  distinct values, \<^verbatim>\<open>np.intersect1d\<close> the sorted distinct values found in both arrays.
\<close>

definition unique :: "int list \<Rightarrow> int list" where
  "unique xs = sort (remdups xs)"


text \<open>
  A Python dictionary built by a comprehension, as the list of its items in the order of
  insertion: a key met again keeps its place and takes the later value.
  \<^verbatim>\<open>enumerate\<close> pairs each element with its index, from 0.
\<close>

definition dict_of :: "('k \<times> 'v) list \<Rightarrow> ('k \<times> 'v) list" where
  "dict_of kvs = foldl (\<lambda>d (k, v). AList.update k v d) [] kvs"

definition enumerate_from0 :: "'a list \<Rightarrow> (int \<times> 'a) list" where
  "enumerate_from0 xs = zip (map int [0..<length xs]) xs"


text \<open>
  The dictionary \<^verbatim>\<open>value_map\<close> of \<^verbatim>\<open>BaseGroundTEM.copy\<close>:
  \<^verbatim>\<open>{val: ind for ind, val in enumerate(np.r_[0, np.unique(tx_values)])}\<close>, where
  \<^verbatim>\<open>tx_values\<close> are the values of \<^verbatim>\<open>new_entity.transmitters.tx_id_property\<close>.
\<close>

definition value_map :: "int list \<Rightarrow> (int \<times> int) list" where
  "value_map tx_values =
     dict_of (map (\<lambda>(ind, val). (val, ind)) (enumerate_from0 (0 # unique tx_values)))"





section \<open>Properties of \<^verbatim>\<open>set_parent\<close>\<close>

text \<open>
  C1 (as amended). When \<^verbatim>\<open>set_parent(e, p)\<close> returns, the tree records the uid that
  \<^verbatim>\<open>p\<close> resolves to as the parent of \<^verbatim>\<open>e\<close>, and \<^verbatim>\<open>e.uid\<close> is a member of
  that parent's children list. The children list of every other entry of the tree,
  the prior parent's included, is left as it was: nothing is removed.
\<close>

theorem set_parent_links:
  assumes "set_parent ws e p = (ws', None)"
  shows "parent_of ws' e = Some (resolve_parent ws p)
       \<and> e \<in> set (children_of ws' (resolve_parent ws p))
       \<and> (\<forall>q. q \<noteq> resolve_parent ws p \<longrightarrow> children_of ws' q = children_of ws q)"
  using assms
  by (auto simp: set_parent_def parent_of_def children_of_def Let_def
           split: option.splits if_splits)

theorem set_parent_links_witness:
  "set_parent ws0 4 (ByUUID 2) = (fst (set_parent ws0 4 (ByUUID 2)), None)
   \<and> parent_of (fst (set_parent ws0 4 (ByUUID 2))) 4 = Some 2
   \<and> 4 \<in> set (children_of (fst (set_parent ws0 4 (ByUUID 2))) 2)
   \<and> children_of (fst (set_parent ws0 4 (ByUUID 2))) 1 = [2, 3, 4]"
proof -
  have h: "set_parent ws0 4 (ByUUID 2) = (fst (set_parent ws0 4 (ByUUID 2)), None)"
    by (simp add: set_parent_def ws0_def tree0_def Let_def)
  have c: "children_of ws0 1 = [2, 3, 4]"
    by (simp add: children_of_def ws0_def tree0_def)
  have r: "resolve_parent ws0 (ByUUID 2) = 2" by simp
  have n: "(1::uid) \<noteq> 2" by simp
  from set_parent_links [OF h] r n c show ?thesis
    using h by auto
qed

text \<open>
  The claim as stated fails: moving entity 4 first under 2 and then under 3 leaves it in the
  children lists of both, while its parent pointer names 3 only.
\<close>

theorem set_parent_two_parents_counterexample:
  "snd (set_parent ws0 4 (ByUUID 2)) = None
   \<and> snd (set_parent ws1 4 (ByUUID 3)) = None
   \<and> parent_of ws2 4 = Some 3
   \<and> 4 \<in> set (children_of ws2 2)
   \<and> 4 \<in> set (children_of ws2 3)
   \<and> (2::uid) \<noteq> 3"
  by (simp add: ws2_def ws1_def set_parent_def ws0_def tree0_def Let_def parent_of_def
        children_of_def)

section \<open>Properties of \<^verbatim>\<open>Data\<close>\<close>

lemma tmi_filled_eq:
  "tmi_filled = tmi\<lparr>d_values := Some [1, 2, 3, 4], on_file := True\<rparr>"
  by (simp add: tmi_filled_def values_setter_spec_def n_values_def tmi_def tmi_new_def quad_def)

lemma n_values_tmi_quad: "n_values tmi quad = Some 4"
  by (simp add: n_values_def tmi_def tmi_new_def quad_def)

text \<open>
  C3. The getter of \<^verbatim>\<open>values\<close> returns the cached array when one is cached, leaving
  the entity as it is; otherwise, when \<^verbatim>\<open>on_file\<close> is set, it returns what
  \<^verbatim>\<open>fetch_array_attribute\<close> gives for the entity's "values" and caches it; otherwise
  it returns null. For an entity on file with an empty cache whose array is in the store,
  the getter returns that array and not null, and a second call returns the same array
  whatever the store holds by then. Where a value is cached or the entity is not on file,
  the getter returns what the getter of the base class in data.py returns.
\<close>

theorem values_getter_lazy:
  "(d_values d = Some v \<longrightarrow> values_getter_spec fetch d = (d, Some v))
   \<and> (d_values d = None \<and> on_file d \<longrightarrow>
        values_getter_spec fetch d
          = (d\<lparr>d_values := fetch (d_uid d) ''values''\<rparr>, fetch (d_uid d) ''values''))
   \<and> (d_values d = None \<and> \<not> on_file d \<longrightarrow> values_getter_spec fetch d = (d, None))
   \<and> (d_values d = None \<and> on_file d \<and> fetch (d_uid d) ''values'' = Some a \<longrightarrow>
        snd (values_getter_spec fetch d) = Some a
      \<and> values_getter_spec fetch' (fst (values_getter_spec fetch d))
          = (fst (values_getter_spec fetch d), Some a))
   \<and> (d_values d \<noteq> None \<or> \<not> on_file d \<longrightarrow>
        snd (values_getter_spec fetch d) = Data_values d)"
  by (auto simp: values_getter_spec_def Data_values_def split: option.splits)

theorem values_getter_lazy_witness:
  "d_values tmi_filled = Some [1, 2, 3, 4]
   \<and> values_getter_spec no_store tmi_filled = (tmi_filled, Some [1, 2, 3, 4])
   \<and> d_values tmi_on_file = None \<and> on_file tmi_on_file
   \<and> store0 (d_uid tmi_on_file) ''values'' = Some [1, 2, 3, 4]
   \<and> values_getter_spec store0 tmi_on_file
        = (tmi_on_file\<lparr>d_values := Some [1, 2, 3, 4]\<rparr>, Some [1, 2, 3, 4])
   \<and> values_getter_spec no_store (tmi_on_file\<lparr>d_values := Some [1, 2, 3, 4]\<rparr>)
        = (tmi_on_file\<lparr>d_values := Some [1, 2, 3, 4]\<rparr>, Some [1, 2, 3, 4])
   \<and> d_values tmi = None \<and> \<not> on_file tmi
   \<and> values_getter_spec store0 tmi = (tmi, None)
   \<and> Data_values tmi = None"
proof -
  have c: "d_values tmi_filled = Some [1, 2, 3, 4]" by (simp add: tmi_filled_eq)
  have f: "d_values tmi_on_file = None \<and> on_file tmi_on_file"
    by (simp add: tmi_on_file_def tmi_def tmi_new_def)
  have s: "store0 (d_uid tmi_on_file) ''values'' = Some [1, 2, 3, 4]"
    by (simp add: store0_def tmi_on_file_def tmi_def tmi_new_def)
  have n: "d_values tmi = None \<and> \<not> on_file tmi" by (simp add: tmi_def tmi_new_def)
  from values_getter_lazy [where d = tmi_filled and v = "[1, 2, 3, 4]" and fetch = no_store] c
  have 1: "values_getter_spec no_store tmi_filled = (tmi_filled, Some [1, 2, 3, 4])" by simp
  from values_getter_lazy [where d = tmi_on_file and fetch = store0 and a = "[1, 2, 3, 4]"
         and fetch' = no_store] f s
  have 2: "values_getter_spec store0 tmi_on_file
             = (tmi_on_file\<lparr>d_values := Some [1, 2, 3, 4]\<rparr>, Some [1, 2, 3, 4])"
    by simp
  from values_getter_lazy [where d = tmi_on_file and fetch = store0 and a = "[1, 2, 3, 4]"
         and fetch' = no_store] f s
  have 23: "values_getter_spec no_store (fst (values_getter_spec store0 tmi_on_file))
             = (fst (values_getter_spec store0 tmi_on_file), Some [1, 2, 3, 4])"
    by blast
  from 23 have 3: "values_getter_spec no_store (tmi_on_file\<lparr>d_values := Some [1, 2, 3, 4]\<rparr>)
             = (tmi_on_file\<lparr>d_values := Some [1, 2, 3, 4]\<rparr>, Some [1, 2, 3, 4])"
    by (simp add: 2)
  from values_getter_lazy [where d = tmi and fetch = store0] n
  have 4: "values_getter_spec store0 tmi = (tmi, None)" by simp
  from values_getter_lazy [where d = tmi and fetch = store0] n
  have 5: "Data_values tmi = None" by (metis snd_conv)
  from c f s n 1 2 3 4 5 show ?thesis by simp
qed

text \<open>
  C6. Against the expected length \<^verbatim>\<open>n_values\<close> of data.py, whatever the association
  it derives from, the setter of \<^verbatim>\<open>values\<close> refuses an array of another length with
  \<^verbatim>\<open>ShapeMismatch\<close>, leaving the entity and the update log as they were; an array of
  the expected length is cached (the getter returns it), \<^verbatim>\<open>update_attribute\<close> is called
  for "values" and \<^verbatim>\<open>on_file\<close> is set. In particular, with the association VERTEX on
  a parent with four vertices, four values are accepted and three are refused.
\<close>

theorem values_setter_checks_length:
  "(n_values d par = Some n \<and> length v \<noteq> n \<longrightarrow>
      values_setter_spec d par v ulog = ((d, ulog), Some ShapeMismatch))
   \<and> (n_values d par = Some n \<and> length v = n \<longrightarrow>
        snd (values_setter_spec d par v ulog) = None
      \<and> Data_values (fst (fst (values_setter_spec d par v ulog))) = Some v
      \<and> on_file (fst (fst (values_setter_spec d par v ulog)))
      \<and> snd (fst (values_setter_spec d par v ulog)) = ulog @ [(d_uid d, ''values'')])
   \<and> (association d = Some VERTEX \<and> n_vertices par = Some 4 \<longrightarrow>
        (length v = 4 \<longrightarrow> snd (values_setter_spec d par v ulog) = None)
      \<and> (length v = 3 \<longrightarrow> values_setter_spec d par v ulog = ((d, ulog), Some ShapeMismatch)))"
  by (simp add: values_setter_spec_def n_values_def Data_values_def)

theorem values_setter_checks_length_witness:
  "n_values tmi quad = Some 4 \<and> association tmi = Some VERTEX \<and> n_vertices quad = Some 4
   \<and> values_setter_spec tmi quad [1, 2, 3] [] = ((tmi, []), Some ShapeMismatch)
   \<and> snd (values_setter_spec tmi quad [1, 2, 3, 4] []) = None
   \<and> Data_values (fst (fst (values_setter_spec tmi quad [1, 2, 3, 4] []))) = Some [1, 2, 3, 4]
   \<and> on_file (fst (fst (values_setter_spec tmi quad [1, 2, 3, 4] [])))
   \<and> snd (fst (values_setter_spec tmi quad [1, 2, 3, 4] [])) = [(9, ''values'')]
   \<and> n_values tmi_cell quad = Some 2
   \<and> values_setter_spec tmi_cell quad [1, 2, 3, 4] [] = ((tmi_cell, []), Some ShapeMismatch)
   \<and> snd (values_setter_spec tmi_cell quad [1, 2] []) = None
   \<and> n_values (tmi\<lparr>association := Some OBJECT\<rparr>) quad = Some 1
   \<and> values_setter_spec (tmi\<lparr>association := Some OBJECT\<rparr>) quad [1, 2] []
        = ((tmi\<lparr>association := Some OBJECT\<rparr>, []), Some ShapeMismatch)"
proof -
  have a: "association tmi = Some VERTEX" by (simp add: tmi_def tmi_new_def)
  have b: "n_vertices quad = Some 4" by (simp add: quad_def)
  have n: "n_values tmi quad = Some 4" by (simp add: n_values_def a b)
  have u: "d_uid tmi = 9" by (simp add: tmi_def tmi_new_def)
  have c: "n_values tmi_cell quad = Some 2"
    by (simp add: n_values_def tmi_cell_def tmi_new_def quad_def)
  have ob: "n_values (tmi\<lparr>association := Some OBJECT\<rparr>) quad = Some 1"
    by (simp add: n_values_def)
  from values_setter_checks_length [where d = tmi and par = quad and n = 4 and v = "[1, 2, 3]"
         and ulog = "[]"] n
  have 1: "values_setter_spec tmi quad [1, 2, 3] [] = ((tmi, []), Some ShapeMismatch)" by simp
  from values_setter_checks_length [where d = tmi and par = quad and n = 4
         and v = "[1, 2, 3, 4]" and ulog = "[]"] n u
  have 2: "snd (values_setter_spec tmi quad [1, 2, 3, 4] []) = None
     \<and> Data_values (fst (fst (values_setter_spec tmi quad [1, 2, 3, 4] []))) = Some [1, 2, 3, 4]
     \<and> on_file (fst (fst (values_setter_spec tmi quad [1, 2, 3, 4] [])))
     \<and> snd (fst (values_setter_spec tmi quad [1, 2, 3, 4] [])) = [(9, ''values'')]" by simp
  from values_setter_checks_length [where d = tmi_cell and par = quad and n = 2
         and v = "[1, 2, 3, 4]" and ulog = "[]"] c
  have 3: "values_setter_spec tmi_cell quad [1, 2, 3, 4] [] = ((tmi_cell, []), Some ShapeMismatch)"
    by simp
  from values_setter_checks_length [where d = tmi_cell and par = quad and n = 2
         and v = "[1, 2]" and ulog = "[]"] c
  have 4: "snd (values_setter_spec tmi_cell quad [1, 2] []) = None" by simp
  from values_setter_checks_length [where d = "tmi\<lparr>association := Some OBJECT\<rparr>" and par = quad
         and n = 1 and v = "[1, 2]" and ulog = "[]"] ob
  have 5: "values_setter_spec (tmi\<lparr>association := Some OBJECT\<rparr>) quad [1, 2] []
        = ((tmi\<lparr>association := Some OBJECT\<rparr>, []), Some ShapeMismatch)" by simp
  from a b n c ob 1 2 3 4 5 show ?thesis by simp
qed


text \<open>
  C8 (as amended). \<^verbatim>\<open>n_values\<close> is the parent's vertex count for VERTEX, its cell count
  for CELL, its face count for FACE, 1 for OBJECT and null when the association is unset.
  The length of the cached values equals \<^verbatim>\<open>n_values\<close> right after a successful
  assignment of the values; the association setter does not look at the values.
\<close>

theorem n_values_by_association:
  "n_values (d\<lparr>association := Some VERTEX\<rparr>) par = n_vertices par
   \<and> n_values (d\<lparr>association := Some CELL\<rparr>) par = n_cells par
   \<and> n_values (d\<lparr>association := Some FACE\<rparr>) par = n_faces par
   \<and> n_values (d\<lparr>association := Some OBJECT\<rparr>) par = Some 1
   \<and> n_values (d\<lparr>association := None\<rparr>) par = None
   \<and> (snd (values_setter_spec d par v ulog) = None \<and> n_values d par = Some n \<longrightarrow>
        d_values (fst (fst (values_setter_spec d par v ulog))) = Some v
      \<and> n_values (fst (fst (values_setter_spec d par v ulog))) par = Some (length v))"
  by (auto simp: n_values_def values_setter_spec_def split: if_splits)

theorem n_values_by_association_witness:
  "snd (values_setter_spec tmi quad [1, 2, 3, 4] []) = None \<and> n_values tmi quad = Some 4
   \<and> d_values tmi_filled = Some [1, 2, 3, 4]
   \<and> n_values tmi_filled quad = Some (length [1, 2, 3, 4 :: real])"
proof -
  have a: "snd (values_setter_spec tmi quad [1, 2, 3, 4] []) = None"
    by (simp add: values_setter_spec_def n_values_tmi_quad)
  from n_values_by_association [of tmi quad "[1, 2, 3, 4]" "[]" 4] a n_values_tmi_quad
  show ?thesis by (simp add: tmi_filled_def)
qed

text \<open>
  The claim as stated fails: a data entity with four values on a parent with four vertices
  is moved to the association OBJECT by the association setter; its four values stay, and
  \<^verbatim>\<open>n_values\<close> is 1.
\<close>

theorem association_change_counterexample:
  "d_values tmi_filled = Some [1, 2, 3, 4] \<and> n_values tmi_filled quad = Some 4
   \<and> set_association tmi_filled (AssocEnum OBJECT) = Inr (tmi_filled\<lparr>association := Some OBJECT\<rparr>)
   \<and> d_values (tmi_filled\<lparr>association := Some OBJECT\<rparr>) = Some [1, 2, 3, 4]
   \<and> n_values (tmi_filled\<lparr>association := Some OBJECT\<rparr>) quad = Some 1
   \<and> length [1, 2, 3, 4 :: real] \<noteq> 1"
  by (simp add: tmi_filled_eq set_association_def n_values_def tmi_def tmi_new_def quad_def)

text \<open>
  What the constructor of \<^verbatim>\<open>Data\<close> guarantees: a null descriptor and a descriptor of
  another primitive type than the class's fail an assertion, and a constructed instance
  carries a descriptor of the class's primitive type.
\<close>

lemma Data_init_rejects:
  "Data_init cls None nm given fresh ulog = Inl AssertionError"
  "primitive_type dt \<noteq> cls \<Longrightarrow> Data_init cls (Some dt) nm given fresh ulog = Inl AssertionError"
  by (simp_all add: Data_init_def)

lemma Data_init_primitive_type:
  "Data_init cls data_type nm given fresh ulog = Inr (d, ulog') \<Longrightarrow>
     primitive_type (entity_type d) = cls \<and> cls_primitive_type d = cls"
  by (auto simp: Data_init_def Let_def split: option.splits if_splits sum.splits)

text \<open>
  C10. The constructor checks the descriptor, the setter of \<^verbatim>\<open>entity_type\<close> does not:
  a float data entity built with a float descriptor accepts an integer descriptor
  afterwards, and then carries a descriptor of another primitive type than its class's.
\<close>

theorem set_entity_type_unchecked:
  "Data_init FLOAT (Some float_type) ''TMI'' (Some 9) 0 [] = Inr (tmi_new, [(9, ''entity_type'')])
   \<and> primitive_type (entity_type tmi_new) = cls_primitive_type tmi_new
   \<and> cls_primitive_type (fst (set_entity_type tmi_new integer_type [])) = FLOAT
   \<and> primitive_type (entity_type (fst (set_entity_type tmi_new integer_type []))) = INTEGER"
  by (simp add: Data_init_def Entity_init_def set_entity_type_def tmi_new_def float_type_def
        integer_type_def Let_def)

section \<open>Properties of the \<^verbatim>\<open>GeoImage\<close> vertices\<close>

lemma shape_of_Lst_nonempty: "shape_of (Lst xs) \<noteq> Some []"
  by (auto split: list.splits option.splits)

lemma shape_nil: "shape_of p = Some [] \<Longrightarrow> \<exists>x. p = Num x"
  by (cases p) (auto split: list.splits option.splits if_splits)

lemma shape_row:
  assumes "shape_of p = Some [n]" "0 < n"
  shows "\<exists>vs. p = Lst (map Num vs) \<and> length vs = n"
proof (cases p)
  case (Num x) with assms show ?thesis by simp
next
  case (Lst xs)
  with assms have a: "length xs = n" "\<forall>x \<in> set xs. shape_of x = Some []"
    by (auto split: list.splits option.splits if_splits simp: map_eq_Cons_conv)
  then have "\<forall>x \<in> set xs. \<exists>v. x = Num v" using shape_nil by blast
  then have "map Num (map num_of xs) = xs"
    by (induction xs) auto
  with a Lst show ?thesis by (metis length_map)
qed

lemma shape_matrix:
  assumes "shape_of p = Some [n, m]" "0 < n"
  shows "\<exists>xs. p = Lst xs \<and> length xs = n \<and> (\<forall>x \<in> set xs. shape_of x = Some [m])"
proof (cases p)
  case (Num x) with assms show ?thesis by simp
next
  case (Lst xs)
  with assms show ?thesis
    by (auto split: list.splits option.splits if_splits simp: map_eq_Cons_conv)
qed

lemma rows_43:
  assumes "shape_of a = Some [4, 3]"
  shows "\<exists>a1 a2 a3 b1 b2 b3 c1 c2 c3 d1 d2 d3.
           rows_of a = [[a1, a2, a3], [b1, b2, b3], [c1, c2, c3], [d1, d2, d3]]"
proof -
  from shape_matrix [OF assms] obtain xs where
    xs: "a = Lst xs" "length xs = 4" "\<forall>x \<in> set xs. shape_of x = Some [3]" by auto
  from xs(2) obtain r1 r2 r3 r4 where r: "xs = [r1, r2, r3, r4]"
    by (auto simp: numeral_eq_Suc length_Suc_conv)
  have row: "\<And>x. shape_of x = Some [3] \<Longrightarrow> \<exists>u v w. map num_of (elems x) = [u, v, w]"
  proof -
    fix x assume "shape_of x = Some [3]"
    from shape_row [OF this] obtain vs where "x = Lst (map Num vs)" "length vs = 3" by auto
    moreover then obtain u v w where "vs = [u, v, w]"
      by (auto simp: numeral_eq_Suc length_Suc_conv)
    ultimately show "\<exists>u v w. map num_of (elems x) = [u, v, w]" by simp
  qed
  from xs(3) r row [of r1] row [of r2] row [of r3] row [of r4] xs(1)
  show ?thesis by (auto simp: rows_of_def)
qed

lemma roundtrip_43:
  assumes "shape_of a = Some [4, 3]"
  shows "\<exists>recs. fromarrays (transpose (rows_of a)) = Some recs \<and> length recs = 4
           \<and> map (\<lambda>(x, y, z). [x, y, z]) recs = rows_of a"
proof -
  from rows_43 [OF assms] obtain a1 a2 a3 b1 b2 b3 c1 c2 c3 d1 d2 d3 where
    "rows_of a = [[a1, a2, a3], [b1, b2, b3], [c1, c2, c3], [d1, d2, d3]]" by blast
  then show ?thesis by (simp add: transpose.simps)
qed

lemma set_vertices_refuses:
  "arg_shape xyz \<noteq> Some [4, 3] \<Longrightarrow> set_vertices g xyz ulog = Inl ValueError"
  by (cases xyz) (auto simp: arg_shape_def set_vertices_def)

lemma set_vertices_accepts:
  assumes "arg_array xyz = Some a" "shape_of a = Some [4, 3]"
  shows "\<exists>recs. set_vertices g xyz ulog
                  = Inr (g\<lparr>gi_vertices := Some recs\<rparr>, ulog @ [(gi_uid g, ''vertices'')])
               \<and> length recs = 4 \<and> map (\<lambda>(x, y, z). [x, y, z]) recs = rows_of a"
proof -
  from roundtrip_43 [OF assms(2)] obtain recs where
    "fromarrays (transpose (rows_of a)) = Some recs" "length recs = 4"
    "map (\<lambda>(x, y, z). [x, y, z]) recs = rows_of a" by blast
  with assms show ?thesis
    by (cases xyz) (auto simp: set_vertices_def)
qed

lemma get_vertices_cached:
  "gi_vertices g = Some recs \<Longrightarrow>
     get_vertices g fetch ulog = Inr (g, ulog, Some (map (\<lambda>(x, y, z). [x, y, z]) recs))"
  by (simp add: get_vertices_def Let_def)

lemma rows_shape:
  "length recs = n \<Longrightarrow>
     length (map (\<lambda>(x, y, z). [x, y, z]) recs) = n
     \<and> (\<forall>r \<in> set (map (\<lambda>(x, y, z). [x :: real, y, z]) recs). length r = 3)"
  by auto

lemma default_vertices_shape:
  "default_vertices g = Some dv \<Longrightarrow> shape_of dv = Some [4, 3]"
  by (auto simp: default_vertices_def split: option.splits)

lemma get_vertices_fetched:
  assumes "gi_vertices g = None" "gi_on_file g" "fetch (gi_uid g) ''vertices'' = Some recs"
  shows "get_vertices g fetch ulog
           = Inr (g\<lparr>gi_vertices := Some recs\<rparr>, ulog, Some (map (\<lambda>(x, y, z). [x, y, z]) recs))"
  using assms by (simp add: get_vertices_def Let_def)

lemma nothing_fetched:
  assumes "gi_vertices g = None" "gi_on_file g \<longrightarrow> fetch (gi_uid g) ''vertices'' = None"
  shows "(if gi_vertices g = None \<and> gi_on_file g
          then g\<lparr>gi_vertices := fetch (gi_uid g) ''vertices''\<rparr> else g) = g"
  using assms by (cases g) auto

lemma set_default_vertices:
  "set_vertices g (ArgArray (Lst [Lst [Num 0, Num (real h), Num 0],
                                   Lst [Num (real w), Num (real h), Num 0],
                                   Lst [Num (real w), Num 0, Num 0],
                                   Lst [Num 0, Num 0, Num 0]])) ulog
     = Inr (g\<lparr>gi_vertices := Some [(0, real h, 0), (real w, real h, 0), (real w, 0, 0), (0, 0, 0)]\<rparr>,
            ulog @ [(gi_uid g, ''vertices'')])"
  by (simp add: set_vertices_def rows_of_def)

lemma get_vertices_default:
  assumes "gi_vertices g = None" "gi_on_file g \<longrightarrow> fetch (gi_uid g) ''vertices'' = None"
      and "gi_image_size g = Some (w, h)"
  shows "get_vertices g fetch ulog
           = Inr (g\<lparr>gi_vertices := Some [(0, real h, 0), (real w, real h, 0), (real w, 0, 0), (0, 0, 0)]\<rparr>,
                  ulog @ [(gi_uid g, ''vertices'')],
                  Some [[0, real h, 0], [real w, real h, 0], [real w, 0, 0], [0, 0, 0]])"
  unfolding get_vertices_def nothing_fetched [where g = g and fetch = fetch, OF assms(1,2)] Let_def
  using assms(1,3) by (simp add: default_vertices_def set_default_vertices)

lemma get_vertices_none:
  assumes "gi_vertices g = None" "gi_on_file g \<longrightarrow> fetch (gi_uid g) ''vertices'' = None"
      and "gi_image_size g = None"
  shows "get_vertices g fetch ulog = Inr (g, ulog, None)"
  unfolding get_vertices_def nothing_fetched [where g = g and fetch = fetch, OF assms(1,2)] Let_def
  using assms(1,3) by simp

lemma get_vertices_rows:
  assumes "get_vertices g fetch ulog = Inr (g', ulog', Some rows)"
  shows "(\<forall>r \<in> set rows. length r = 3)
       \<and> (\<exists>recs. gi_vertices g' = Some recs \<and> length rows = length recs)"
proof (cases "gi_vertices g")
  case (Some recs)
  from get_vertices_cached [OF Some, of fetch ulog] assms show ?thesis using Some by auto
next
  case None
  show ?thesis
  proof (cases "gi_on_file g \<and> fetch (gi_uid g) ''vertices'' \<noteq> None")
    case True
    then obtain recs where "fetch (gi_uid g) ''vertices'' = Some recs" by auto
    from get_vertices_fetched [where g = g and fetch = fetch and ulog = ulog, OF None _ this] True assms
    show ?thesis by auto
  next
    case False
    then have nf: "gi_on_file g \<longrightarrow> fetch (gi_uid g) ''vertices'' = None" by auto
    show ?thesis
    proof (cases "gi_image_size g")
      case None2: None
      from get_vertices_none [where g = g and fetch = fetch and ulog = ulog, OF None nf None2] assms
      show ?thesis by simp
    next
      case (Some wh)
      obtain w h where "wh = (w, h)" by (cases wh)
      with Some have "gi_image_size g = Some (w, h)" by simp
      from get_vertices_default [where g = g and fetch = fetch and ulog = ulog, OF None nf this] assms
      show ?thesis by auto
    qed
  qed
qed

text \<open>
  C9 (as amended). The vertices setter raises \<^verbatim>\<open>ValueError\<close> for every argument that
  is not a list or array of shape (4, 3); for one of that shape it stores four records, and
  the getter then returns the rows given, four rows of three numbers. The getter never
  raises and returns the records it holds as rows of three numbers, one row for each
  record: the cached records when there are some; otherwise, for an object on file, the
  records fetched from the workspace store, however many there are; otherwise the four
  default corners of the image, stored through the setter; otherwise null.
\<close>

theorem vertices_rows_of_three:
  "(arg_shape xyz \<noteq> Some [4, 3] \<longrightarrow> set_vertices g xyz ulog = Inl ValueError)
   \<and> (\<forall>a. arg_array xyz = Some a \<and> shape_of a = Some [4, 3] \<longrightarrow>
        (\<exists>recs. set_vertices g xyz ulog
                  = Inr (g\<lparr>gi_vertices := Some recs\<rparr>, ulog @ [(gi_uid g, ''vertices'')])
          \<and> length recs = 4
          \<and> get_vertices (g\<lparr>gi_vertices := Some recs\<rparr>) fetch ulog'
              = Inr (g\<lparr>gi_vertices := Some recs\<rparr>, ulog', Some (rows_of a))
          \<and> length (rows_of a) = 4 \<and> (\<forall>r \<in> set (rows_of a). length r = 3)))
   \<and> (gi_vertices g = Some held \<longrightarrow>
        get_vertices g fetch ulog = Inr (g, ulog, Some (map (\<lambda>(x, y, z). [x, y, z]) held)))
   \<and> (gi_vertices g = None \<and> gi_on_file g \<and> fetch (gi_uid g) ''vertices'' = Some stored \<longrightarrow>
        get_vertices g fetch ulog
          = Inr (g\<lparr>gi_vertices := Some stored\<rparr>, ulog,
                 Some (map (\<lambda>(x, y, z). [x, y, z]) stored)))
   \<and> (gi_vertices g = None \<and> (gi_on_file g \<longrightarrow> fetch (gi_uid g) ''vertices'' = None)
        \<and> gi_image_size g = Some (w, h) \<longrightarrow>
        get_vertices g fetch ulog
          = Inr (g\<lparr>gi_vertices :=
                     Some [(0, real h, 0), (real w, real h, 0), (real w, 0, 0), (0, 0, 0)]\<rparr>,
                 ulog @ [(gi_uid g, ''vertices'')],
                 Some [[0, real h, 0], [real w, real h, 0], [real w, 0, 0], [0, 0, 0]]))
   \<and> (gi_vertices g = None \<and> (gi_on_file g \<longrightarrow> fetch (gi_uid g) ''vertices'' = None)
        \<and> gi_image_size g = None \<longrightarrow>
        get_vertices g fetch ulog = Inr (g, ulog, None))
   \<and> (get_vertices g fetch ulog = Inr (g', ulogb, Some rows) \<longrightarrow>
        (\<forall>r \<in> set rows. length r = 3)
      \<and> (\<exists>recs. gi_vertices g' = Some recs \<and> length rows = length recs))"
proof (intro conjI impI allI)
  assume "arg_shape xyz \<noteq> Some [4, 3]"
  then show "set_vertices g xyz ulog = Inl ValueError" by (rule set_vertices_refuses)
next
  fix a assume a: "arg_array xyz = Some a \<and> shape_of a = Some [4, 3]"
  from set_vertices_accepts [of xyz a g ulog] a obtain recs where r:
    "set_vertices g xyz ulog
       = Inr (g\<lparr>gi_vertices := Some recs\<rparr>, ulog @ [(gi_uid g, ''vertices'')])"
    "length recs = 4" "map (\<lambda>(x, y, z). [x, y, z]) recs = rows_of a" by blast
  have "get_vertices (g\<lparr>gi_vertices := Some recs\<rparr>) fetch ulog'
          = Inr (g\<lparr>gi_vertices := Some recs\<rparr>, ulog', Some (rows_of a))"
    using get_vertices_cached [of "g\<lparr>gi_vertices := Some recs\<rparr>" recs fetch ulog'] r(3) by simp
  moreover have "length (rows_of a) = 4 \<and> (\<forall>r \<in> set (rows_of a). length r = 3)"
    using rows_shape [OF r(2)] r(3) by simp
  ultimately show "\<exists>recs. set_vertices g xyz ulog
                  = Inr (g\<lparr>gi_vertices := Some recs\<rparr>, ulog @ [(gi_uid g, ''vertices'')])
          \<and> length recs = 4
          \<and> get_vertices (g\<lparr>gi_vertices := Some recs\<rparr>) fetch ulog'
              = Inr (g\<lparr>gi_vertices := Some recs\<rparr>, ulog', Some (rows_of a))
          \<and> length (rows_of a) = 4 \<and> (\<forall>r \<in> set (rows_of a). length r = 3)"
    using r(1,2) by blast
next
  assume "gi_vertices g = Some held"
  then show "get_vertices g fetch ulog = Inr (g, ulog, Some (map (\<lambda>(x, y, z). [x, y, z]) held))"
    by (rule get_vertices_cached)
next
  assume "gi_vertices g = None \<and> gi_on_file g \<and> fetch (gi_uid g) ''vertices'' = Some stored"
  then show "get_vertices g fetch ulog
          = Inr (g\<lparr>gi_vertices := Some stored\<rparr>, ulog,
                 Some (map (\<lambda>(x, y, z). [x, y, z]) stored))"
    using get_vertices_fetched by blast
next
  assume "gi_vertices g = None \<and> (gi_on_file g \<longrightarrow> fetch (gi_uid g) ''vertices'' = None)
        \<and> gi_image_size g = Some (w, h)"
  then show "get_vertices g fetch ulog
          = Inr (g\<lparr>gi_vertices :=
                     Some [(0, real h, 0), (real w, real h, 0), (real w, 0, 0), (0, 0, 0)]\<rparr>,
                 ulog @ [(gi_uid g, ''vertices'')],
                 Some [[0, real h, 0], [real w, real h, 0], [real w, 0, 0], [0, 0, 0]])"
    using get_vertices_default by blast
next
  assume "gi_vertices g = None \<and> (gi_on_file g \<longrightarrow> fetch (gi_uid g) ''vertices'' = None)
        \<and> gi_image_size g = None"
  then show "get_vertices g fetch ulog = Inr (g, ulog, None)"
    using get_vertices_none by blast
next
  assume a: "get_vertices g fetch ulog = Inr (g', ulogb, Some rows)"
  from get_vertices_rows [OF a] show "\<forall>r \<in> set rows. length r = 3" by blast
next
  assume a: "get_vertices g fetch ulog = Inr (g', ulogb, Some rows)"
  from get_vertices_rows [OF a]
  show "\<exists>recs. gi_vertices g' = Some recs \<and> length rows = length recs" by blast
qed

theorem vertices_rows_of_three_witness:
  "arg_shape (ArgList [Num 1, Num 2]) \<noteq> Some [4, 3]
   \<and> set_vertices geo0 (ArgList [Num 1, Num 2]) [] = Inl ValueError
   \<and> arg_array (ArgList corners) = Some (Lst corners) \<and> shape_of (Lst corners) = Some [4, 3]
   \<and> set_vertices geo0 (ArgList corners) [] = Inr (geo1, [(11, ''vertices'')])
   \<and> rows_of (Lst corners) = [[0, 2, 0], [5, 2, 0], [5, 0, 0], [0, 0, 0]]
   \<and> gi_vertices geo1 = Some [(0, 2, 0), (5, 2, 0), (5, 0, 0), (0, 0, 0)]
   \<and> get_vertices geo1 no_vertices []
        = Inr (geo1, [], Some [[0, 2, 0], [5, 2, 0], [5, 0, 0], [0, 0, 0]])
   \<and> gi_vertices geo_file = None \<and> gi_on_file geo_file
   \<and> store_four (gi_uid geo_file) ''vertices'' = Some [(0, 2, 0), (5, 2, 0), (5, 0, 0), (0, 0, 0)]
   \<and> get_vertices geo_file store_four []
        = Inr (geo_file\<lparr>gi_vertices := Some [(0, 2, 0), (5, 2, 0), (5, 0, 0), (0, 0, 0)]\<rparr>, [],
               Some [[0, 2, 0], [5, 2, 0], [5, 0, 0], [0, 0, 0]])
   \<and> gi_vertices geo_img = None \<and> \<not> gi_on_file geo_img \<and> gi_image_size geo_img = Some (5, 2)
   \<and> get_vertices geo_img no_vertices []
        = Inr (geo_img\<lparr>gi_vertices := Some [(0, 2, 0), (5, 2, 0), (5, 0, 0), (0, 0, 0)]\<rparr>,
               [(11, ''vertices'')],
               Some [[0, 2, 0], [5, 2, 0], [5, 0, 0], [0, 0, 0]])
   \<and> gi_vertices geo0 = None \<and> \<not> gi_on_file geo0 \<and> gi_image_size geo0 = None
   \<and> get_vertices geo0 no_vertices [] = Inr (geo0, [], None)
   \<and> gi_vertices geo_file = None \<and> no_vertices (gi_uid geo_file) ''vertices'' = None
   \<and> get_vertices geo_file no_vertices [] = Inr (geo_file, [], None)
   \<and> get_vertices geo1 no_vertices [] = Inr (geo1, [], Some (rows_of (Lst corners)))
   \<and> length [[0, 2, 0], [5, 2, 0], [5, 0, 0], [0, 0, 0 :: real]]
        = length [(0, 2, 0), (5, 2, 0), (5, 0, 0), (0 :: real, 0 :: real, 0 :: real)]"
proof -
  have s: "shape_of (Lst corners) = Some [4, 3]" by (simp add: corners_def)
  have n: "arg_shape (ArgList [Num 1, Num 2]) \<noteq> Some [4, 3]" by (simp add: arg_shape_def)
  have e: "set_vertices geo0 (ArgList corners) [] = Inr (geo1, [(11, ''vertices'')])"
    by (simp add: set_vertices_def corners_def rows_of_def geo0_def geo1_def)
  have r: "rows_of (Lst corners) = [[0, 2, 0], [5, 2, 0], [5, 0, 0], [0, 0, 0]]"
    by (simp add: corners_def rows_of_def)
  have c: "gi_vertices geo1 = Some [(0, 2, 0), (5, 2, 0), (5, 0, 0), (0, 0, 0)]"
    by (simp add: geo1_def)
  have f: "gi_vertices geo_file = None \<and> gi_on_file geo_file \<and> gi_image_size geo_file = None"
    by (simp add: geo_file_def geo0_def)
  have sf: "store_four (gi_uid geo_file) ''vertices''
              = Some [(0, 2, 0), (5, 2, 0), (5, 0, 0), (0, 0, 0)]"
    by (simp add: store_four_def geo_file_def geo0_def)
  have i: "gi_vertices geo_img = None \<and> \<not> gi_on_file geo_img \<and> gi_image_size geo_img = Some (5, 2)"
    by (simp add: geo_img_def geo0_def)
  have iu: "gi_uid geo_img = 11" by (simp add: geo_img_def geo0_def)
  have z: "gi_vertices geo0 = None \<and> \<not> gi_on_file geo0 \<and> gi_image_size geo0 = None"
    by (simp add: geo0_def)
  have nv: "no_vertices (gi_uid geo_file) ''vertices'' = None" by (simp add: no_vertices_def)
  from vertices_rows_of_three [where xyz = "ArgList [Num 1, Num 2]" and g = geo0 and ulog = "[]"] n
  have 1: "set_vertices geo0 (ArgList [Num 1, Num 2]) [] = Inl ValueError" by blast
  from vertices_rows_of_three [where g = geo1 and fetch = no_vertices and ulog = "[]"
         and held = "[(0, 2, 0), (5, 2, 0), (5, 0, 0), (0, 0, 0)]"] c
  have 2: "get_vertices geo1 no_vertices []
        = Inr (geo1, [], Some [[0, 2, 0], [5, 2, 0], [5, 0, 0], [0, 0, 0]])" by simp
  from vertices_rows_of_three [where g = geo_file and fetch = store_four and ulog = "[]"
         and stored = "[(0, 2, 0), (5, 2, 0), (5, 0, 0), (0, 0, 0)]"] f sf
  have 3: "get_vertices geo_file store_four []
        = Inr (geo_file\<lparr>gi_vertices := Some [(0, 2, 0), (5, 2, 0), (5, 0, 0), (0, 0, 0)]\<rparr>, [],
               Some [[0, 2, 0], [5, 2, 0], [5, 0, 0], [0, 0, 0]])" by simp
  from vertices_rows_of_three [where g = geo_img and fetch = no_vertices and ulog = "[]"
         and w = 5 and h = 2] i iu
  have 4: "get_vertices geo_img no_vertices []
        = Inr (geo_img\<lparr>gi_vertices := Some [(0, 2, 0), (5, 2, 0), (5, 0, 0), (0, 0, 0)]\<rparr>,
               [(11, ''vertices'')],
               Some [[0, 2, 0], [5, 2, 0], [5, 0, 0], [0, 0, 0]])" by simp
  from vertices_rows_of_three [where g = geo0 and fetch = no_vertices and ulog = "[]"] z
  have 5: "get_vertices geo0 no_vertices [] = Inr (geo0, [], None)" by simp
  from vertices_rows_of_three [where g = geo_file and fetch = no_vertices and ulog = "[]"] f nv
  have 6: "get_vertices geo_file no_vertices [] = Inr (geo_file, [], None)" by simp
  from vertices_rows_of_three [where xyz = "ArgList corners" and g = geo0 and ulog = "[]"
         and fetch = no_vertices and ulog' = "[]"]
  have "\<forall>a. arg_array (ArgList corners) = Some a \<and> shape_of a = Some [4, 3] \<longrightarrow>
        (\<exists>recs. set_vertices geo0 (ArgList corners) []
                  = Inr (geo0\<lparr>gi_vertices := Some recs\<rparr>, [] @ [(gi_uid geo0, ''vertices'')])
          \<and> length recs = 4
          \<and> get_vertices (geo0\<lparr>gi_vertices := Some recs\<rparr>) no_vertices []
              = Inr (geo0\<lparr>gi_vertices := Some recs\<rparr>, [], Some (rows_of a))
          \<and> length (rows_of a) = 4 \<and> (\<forall>r \<in> set (rows_of a). length r = 3))"
    by (rule conjunct1 [OF conjunct2])
  with s arg_array.simps(1) [of corners]
  obtain recs where
    "set_vertices geo0 (ArgList corners) []
       = Inr (geo0\<lparr>gi_vertices := Some recs\<rparr>, [] @ [(gi_uid geo0, ''vertices'')])"
    "get_vertices (geo0\<lparr>gi_vertices := Some recs\<rparr>) no_vertices []
       = Inr (geo0\<lparr>gi_vertices := Some recs\<rparr>, [], Some (rows_of (Lst corners)))"
    by blast
  with e have 7: "get_vertices geo1 no_vertices [] = Inr (geo1, [], Some (rows_of (Lst corners)))"
    by simp
  from vertices_rows_of_three [where g = geo_file and fetch = store_four and ulog = "[]"
         and g' = "geo_file\<lparr>gi_vertices := Some [(0, 2, 0), (5, 2, 0), (5, 0, 0), (0, 0, 0)]\<rparr>"
         and ulogb = "[]" and rows = "[[0, 2, 0], [5, 2, 0], [5, 0, 0], [0, 0, 0]]"] 3
  have 8: "length [[0, 2, 0], [5, 2, 0], [5, 0, 0], [0, 0, 0 :: real]]
             = length [(0, 2, 0), (5, 2, 0), (5, 0, 0), (0 :: real, 0 :: real, 0 :: real)]"
    by simp
  from s n e r c f sf i z nv 1 2 3 4 5 6 7 8 show ?thesis by (simp add: corners_def)
qed

text \<open>
  The claim as stated fails: for an image object on file whose stored vertices are two
  records, the getter returns an array of shape (2, 3).
\<close>

theorem vertices_fetched_two_counterexample:
  "gi_vertices geo_file = None \<and> gi_on_file geo_file
   \<and> store_two (gi_uid geo_file) ''vertices'' = Some [(0, 0, 0), (1, 1, 0)]
   \<and> get_vertices geo_file store_two []
        = Inr (geo_file\<lparr>gi_vertices := Some [(0, 0, 0), (1, 1, 0)]\<rparr>, [],
               Some [[0, 0, 0], [1, 1, 0]])
   \<and> length [[0, 0, 0], [1, 1, 0 :: real]] = 2"
  by (simp add: get_vertices_def store_two_def geo_file_def geo0_def Let_def)

section \<open>Properties of the EM survey\<close>

lemmas em_defs = add_component_data_def add_component_def validate_component_def channels_def
  group_component_def add_data_to_group_def find_or_create_property_group_def edit_metadata_def
  edit_entry_def edit_validate_property_groups_def validate_one_def set_metadata_def Let_def

lemma add_A: "add_component_data survey0 data_A = (survey_A, Inr [group_A])"
  by (simp add: em_defs survey0_def data_A_def survey_A_def group_A_def)

lemma add_A_again: "add_component_data survey_A data_A = (survey_A, Inl ValueError)"
  by (simp add: em_defs survey0_def data_A_def survey_A_def group_A_def)

lemma add_AB: "add_component_data survey0 data_AB = (survey_A, Inl ValueError)"
  by (simp add: em_defs survey0_def data_AB_def survey_A_def group_A_def)

text \<open>The metadata edits change nothing of the survey but its metadata, and not the channels
  when "Property groups" is edited.\<close>

lemma validate_one_frame:
  "validate_one s v = (s', r) \<Longrightarrow> s' = s\<lparr>em_dataset := em_dataset s'\<rparr>
     \<and> map_of (em_dataset s') ''Channels'' = map_of (em_dataset s) ''Channels''"
  by (auto simp: validate_one_def update_conv' split: option.splits sum.splits bool.splits if_splits pyval.splits)

lemma validate_all_frame:
  "validate_all s vs = (s', r) \<Longrightarrow> s' = s\<lparr>em_dataset := em_dataset s'\<rparr>
     \<and> map_of (em_dataset s') ''Channels'' = map_of (em_dataset s) ''Channels''"
proof (induction vs arbitrary: s)
  case Nil
  then show ?case by simp
next
  case (Cons v vs)
  obtain s1 r1 where v: "validate_one s v = (s1, r1)" by (cases "validate_one s v")
  note f = validate_one_frame [OF v]
  show ?case
  proof (cases r1)
    case None
    with Cons.prems v have "validate_all s1 vs = (s', r)" by simp
    from Cons.IH [OF this] f show ?thesis
      by (metis survey.surjective survey.update_convs(2))
  next
    case (Some e)
    with Cons.prems v f show ?thesis by auto
  qed
qed


lemma edit_validate_frame:
  "edit_validate_property_groups s v = (s', r) \<Longrightarrow> s' = s\<lparr>em_dataset := em_dataset s'\<rparr>
     \<and> map_of (em_dataset s') ''Channels'' = map_of (em_dataset s) ''Channels''"
  unfolding edit_validate_property_groups_def Let_def
  by (drule validate_all_frame) (auto simp: update_conv' split: if_splits)

lemma edit_entry_frame:
  "edit_entry s key v = (s', r) \<Longrightarrow> s' = s\<lparr>em_dataset := em_dataset s'\<rparr>"
  unfolding edit_entry_def Let_def
  by (auto split: if_splits option.splits pyval.splits dest: edit_validate_frame)

lemma edit_entries_frame:
  "edit_entries s entries = (s', r) \<Longrightarrow> s' = s\<lparr>em_dataset := em_dataset s'\<rparr>"
proof (induction entries arbitrary: s)
  case Nil
  then show ?case by simp
next
  case (Cons kv entries)
  obtain key v where kv: "kv = (key, v)" by (cases kv)
  obtain s1 r1 where e: "edit_entry s key v = (s1, r1)" by (cases "edit_entry s key v")
  note f = edit_entry_frame [OF e]
  show ?case
  proof (cases r1)
    case None
    with Cons.prems kv e have "edit_entries s1 entries = (s', r)" by simp
    from Cons.IH [OF this] f show ?thesis
      by (metis survey.surjective survey.update_convs(2))
  next
    case (Some err)
    with Cons.prems kv e f show ?thesis by auto
  qed
qed

text \<open>
  C7. When \<^verbatim>\<open>edit_metadata(entries)\<close> returns, the metadata of the receivers entity,
  when the survey has one, equals the survey's metadata, and so does the metadata of the
  transmitters entity; the call neither adds nor drops a paired entity.
\<close>

theorem edit_metadata_syncs:
  assumes "edit_metadata s entries = (s', None)"
  shows "(\<forall>r. receivers s' = Some r \<longrightarrow> cm_metadata r = em_dataset s')
       \<and> (\<forall>t. transmitters s' = Some t \<longrightarrow> cm_metadata t = em_dataset s')
       \<and> (receivers s' = None \<longleftrightarrow> receivers s = None)
       \<and> (transmitters s' = None \<longleftrightarrow> transmitters s = None)"
proof -
  obtain s1 r1 where e: "edit_entries s entries = (s1, r1)" by (cases "edit_entries s entries")
  from edit_entries_frame [OF e] have f: "receivers s1 = receivers s" "transmitters s1 = transmitters s"
    by (metis survey.select_convs survey.surjective survey.update_convs(2))+
  from assms e f show ?thesis
    by (auto simp: edit_metadata_def Let_def set_metadata_def split: option.splits)
qed

theorem edit_metadata_syncs_witness:
  "edit_metadata survey0 [(''Unit'', VStr ''ms''), (''Input type'', VNone), (''Property groups'', VList [])]
     = (fst (edit_metadata survey0 [(''Unit'', VStr ''ms''), (''Input type'', VNone), (''Property groups'', VList [])]), None)
   \<and> receivers (fst (edit_metadata survey0 [(''Unit'', VStr ''ms''), (''Input type'', VNone), (''Property groups'', VList [])]))
       = Some \<lparr>cm_uid = 30, cm_metadata = [(''Channels'', VList [VFloat 1, VFloat 2]),
                (''Property groups'', VList []), (''Unit'', VStr ''ms'')]\<rparr>
   \<and> em_dataset (fst (edit_metadata survey0 [(''Unit'', VStr ''ms''), (''Input type'', VNone), (''Property groups'', VList [])]))
       = [(''Channels'', VList [VFloat 1, VFloat 2]),
                (''Property groups'', VList []), (''Unit'', VStr ''ms'')]"
proof -
  let ?es = "[(''Unit'', VStr ''ms''), (''Input type'', VNone), (''Property groups'', VList [])]"
  have e: "edit_metadata survey0 ?es = (fst (edit_metadata survey0 ?es), None)"
    by (simp add: em_defs survey0_def)
  have m: "em_dataset (fst (edit_metadata survey0 ?es))
       = [(''Channels'', VList [VFloat 1, VFloat 2]),
                (''Property groups'', VList []), (''Unit'', VStr ''ms'')]"
    by (simp add: em_defs survey0_def)
  have r: "\<exists>c. receivers (fst (edit_metadata survey0 ?es)) = Some c \<and> cm_uid c = 30"
    by (simp add: em_defs survey0_def)
  from edit_metadata_syncs [OF e] r m e show ?thesis by auto
qed

lemma grows_refl: "grows s s"
  by (simp add: grows_def)

lemma grows_trans: "grows s s1 \<Longrightarrow> grows s1 s2 \<Longrightarrow> grows s s2"
  by (auto simp: grows_def)

lemma add_channels_grows:
  "add_channels s kvs acc = (s', r) \<Longrightarrow> grows s s'"
proof (induction kvs arbitrary: s acc)
  case Nil
  then show ?case by (simp add: grows_refl)
next
  case (Cons kv kvs)
  obtain channel attr where kv: "kv = (channel, attr)" by (cases kv)
  show ?case
  proof (cases attr)
    case None
    with Cons.prems kv show ?thesis by (simp add: grows_refl)
  next
    case (Some a)
    with Cons.prems kv have
      "add_channels (fst (add_data s channel a)) kvs (acc @ [snd (add_data s channel a)]) = (s', r)"
      by (simp add: case_prod_unfold Let_def)
    from Cons.IH [OF this] have "grows (fst (add_data s channel a)) s'" .
    moreover have "grows s (fst (add_data s channel a))"
      by (simp add: grows_def add_data_def channels_def)
    ultimately show ?thesis by (rule grows_trans [rotated])
  qed
qed

lemma find_or_create_name:
  "find_or_create_property_group s nm = (s1, g) \<Longrightarrow>
     pg_name g = nm \<and> em_dataset s1 = em_dataset s
     \<and> set (map pg_name (property_groups s)) \<subseteq> set (map pg_name (property_groups s1))"
  by (auto simp: find_or_create_property_group_def find_Some_iff split: option.splits)

lemma add_data_to_group_grows:
  assumes "add_data_to_group s uids nm = (s1, g)"
  shows "grows s s1"
proof -
  obtain s0 g0 where f: "find_or_create_property_group s nm = (s0, g0)"
    by (cases "find_or_create_property_group s nm")
  note n = find_or_create_name [OF f]
  from assms f have s1: "s1 = s0\<lparr>property_groups :=
       map (\<lambda>h. if pg_name h = nm then g0\<lparr>pg_properties := pg_properties g0 @ uids\<rparr> else h)
         (property_groups s0)\<rparr>"
    by (auto simp: add_data_to_group_def Let_def)
  have "map pg_name (property_groups s1) = map pg_name (property_groups s0)"
    using n by (simp add: s1 comp_def cong: map_cong)
  with n s1 show ?thesis by (simp add: grows_def channels_def)
qed

lemma edit_group_grows:
  assumes "edit_metadata s [(''Property groups'', VGroup g)] = (s', r)"
  shows "grows s s'"
proof -
  obtain s1 r1 where v: "edit_validate_property_groups s (VGroup g) = (s1, r1)"
    by (cases "edit_validate_property_groups s (VGroup g)")
  note vf = edit_validate_frame [OF v]
  from vf have "property_groups s1 = property_groups s"
    by (metis survey.select_convs(3) survey.surjective survey.update_convs(2))
  moreover from vf have "channels s1 = channels s" by (simp add: channels_def)
  ultimately have f: "property_groups s1 = property_groups s" "channels s1 = channels s" .
  from assms v have "property_groups s' = property_groups s1 \<and> em_dataset s' = em_dataset s1"
    by (auto simp: edit_metadata_def edit_entry_def Let_def split: option.splits)
  with f show ?thesis by (simp add: grows_def channels_def)
qed

lemma group_component_grows:
  assumes "group_component s uids nm = (s', r)"
  shows "grows s s'"
proof -
  obtain s1 g where a: "add_data_to_group s uids nm = (s1, g)"
    by (cases "add_data_to_group s uids nm")
  obtain s2 r2 where e: "edit_metadata s1 [(''Property groups'', VGroup g)] = (s2, r2)"
    by (cases "edit_metadata s1 [(''Property groups'', VGroup g)]")
  from assms a e have "s' = s2" by (auto simp: group_component_def split: option.splits)
  with add_data_to_group_grows [OF a] edit_group_grows [OF e] show ?thesis
    by (auto intro: grows_trans)
qed

lemma add_component_grows:
  assumes "add_component s nm block = (s', r)"
  shows "grows s s'"
proof (cases "validate_component s nm block")
  case (Some e)
  with assms show ?thesis by (simp add: add_component_def grows_refl)
next
  case None
  show ?thesis
  proof (cases block)
    case (BlockList es)
    with None assms show ?thesis
      by (auto simp: add_component_def grows_refl split: if_splits dest: group_component_grows)
  next
    case (BlockDict kvs)
    obtain s1 r1 where c: "add_channels s kvs [] = (s1, r1)" by (cases "add_channels s kvs []")
    note g = add_channels_grows [OF c]
    show ?thesis
    proof (cases r1)
      case (Inl e)
      with None BlockDict assms c g show ?thesis by (simp add: add_component_def)
    next
      case (Inr data_list)
      with None BlockDict assms c have "group_component s1 data_list nm = (s', r)"
        by (simp add: add_component_def)
      from group_component_grows [OF this] g show ?thesis by (rule grows_trans [rotated])
    qed
  next
    case BlockOther
    with None assms show ?thesis by (simp add: add_component_def grows_refl)
  qed
qed

lemma add_component_invalid:
  "validate_component s nm block = Some e \<Longrightarrow> add_component s nm block = (s, Inl e)"
  by (simp add: add_component_def)

lemma add_components_raises:
  assumes "(nm, block) \<in> set items"
      and "\<And>s'. grows s s' \<Longrightarrow> validate_component s' nm block \<noteq> None"
  shows "isl (snd (add_components s items acc))"
  using assms
proof (induction items arbitrary: s acc)
  case Nil
  then show ?case by simp
next
  case (Cons item items)
  obtain n b where item: "item = (n, b)" by (cases item)
  obtain s1 r1 where c: "add_component s n b = (s1, r1)" by (cases "add_component s n b")
  note g = add_component_grows [OF c]
  show ?case
  proof (cases r1)
    case (Inl e)
    with item c show ?thesis by simp
  next
    case (Inr pg)
    have "(nm, block) \<noteq> (n, b)"
    proof
      assume "(nm, block) = (n, b)"
      moreover from Cons.prems(2) [OF grows_refl] obtain e where
        "validate_component s nm block = Some e" by auto
      ultimately show False using c Inr by (simp add: add_component_invalid)
    qed
    with Cons.prems(1) item have m: "(nm, block) \<in> set items" by auto
    have "isl (snd (add_components s1 items (acc @ [pg])))"
    proof (rule Cons.IH [OF m])
      fix s' assume "grows s1 s'"
      with g have "grows s s'" by (rule grows_trans)
      then show "validate_component s' nm block \<noteq> None" by (rule Cons.prems(2))
    qed
    with item c Inr show ?thesis by simp
  qed
qed

lemma add_components_stops:
  "add_components s pre acc = (s1, Inr acc1) \<Longrightarrow> validate_component s1 nm block = Some e \<Longrightarrow>
     add_components s (pre @ (nm, block) # rest) acc = (s1, Inl e)"
proof (induction pre arbitrary: s acc)
  case Nil
  then show ?case by (simp add: add_component_invalid)
next
  case (Cons item pre)
  obtain n b where item: "item = (n, b)" by (cases item)
  obtain s2 r2 where c: "add_component s n b = (s2, r2)" by (cases "add_component s n b")
  show ?case
  proof (cases r2)
    case (Inl err)
    with Cons.prems item c show ?thesis by simp
  next
    case (Inr pg)
    with Cons.prems item c have "add_components s2 pre (acc @ [pg]) = (s1, Inr acc1)" by simp
    from Cons.IH [OF this Cons.prems(2)] item c Inr show ?thesis by simp
  qed
qed

lemma validate_dup:
  "nm \<in> set (map pg_name (property_groups s)) \<Longrightarrow> validate_component s nm block = Some ValueError"
  by (simp add: validate_component_def)

lemma validate_len:
  "channels s = Inr ch \<Longrightarrow> py_len ch = Inr n \<Longrightarrow> block_len block \<noteq> Some n \<Longrightarrow>
     validate_component s nm block \<noteq> None"
  by (simp add: validate_component_def)

lemma add_component_data_raises:
  assumes "(nm, block) \<in> set items"
      and "\<And>s'. grows s s' \<Longrightarrow> validate_component s' nm block \<noteq> None"
  shows "isl (snd (add_component_data s (DataDict items)))"
  using add_components_raises [OF assms, where acc = "[]"]
  by (simp add: add_component_data_def split: sum.splits)

text \<open>
  C5. \<^verbatim>\<open>add_component_data\<close> raises when the channels are unset or empty, when a
  property group of a requested component name exists, and when a component's number of
  entries differs from the number of channels. On the survey with channels [1.0, 2.0] and
  the component "A" given as two FloatData of the survey, it creates the one property
  group "A" of these two properties, records the name in the metadata and returns the
  group; the same call again raises.
\<close>

theorem add_component_data_checks:
  "(map_of (em_dataset s) ''Channels'' \<in> {None, Some VNone, Some (VList [])} \<longrightarrow>
      isl (snd (add_component_data s data)) \<and> fst (add_component_data s data) = s)
   \<and> ((nm, block) \<in> set items \<and> nm \<in> set (map pg_name (property_groups s)) \<longrightarrow>
        isl (snd (add_component_data s (DataDict items))))
   \<and> ((nm, block) \<in> set items \<and> channels s = Inr ch \<and> py_len ch = Inr n
        \<and> block_len block \<noteq> Some n \<longrightarrow>
        isl (snd (add_component_data s (DataDict items))))
   \<and> add_component_data survey0 data_A = (survey_A, Inr [group_A])
   \<and> property_groups survey0 = [] \<and> property_groups survey_A = [group_A]
   \<and> pg_name group_A = ''A'' \<and> pg_properties group_A = [21, 22]
   \<and> map_of (em_dataset survey_A) ''Property groups'' = Some (VList [VStr ''A''])
   \<and> add_component_data survey_A data_A = (survey_A, Inl ValueError)"
proof (intro conjI impI)
  assume "map_of (em_dataset s) ''Channels'' \<in> {None, Some VNone, Some (VList [])}"
  then show "isl (snd (add_component_data s data))" "fst (add_component_data s data) = s"
    by (auto simp: add_component_data_def channels_def)
next
  assume a: "(nm, block) \<in> set items \<and> nm \<in> set (map pg_name (property_groups s))"
  show "isl (snd (add_component_data s (DataDict items)))"
  proof (rule add_component_data_raises)
    from a show "(nm, block) \<in> set items" by simp
    fix s' assume "grows s s'"
    with a have "nm \<in> set (map pg_name (property_groups s'))" by (auto simp: grows_def)
    then show "validate_component s' nm block \<noteq> None" by (simp add: validate_dup)
  qed
next
  assume a: "(nm, block) \<in> set items \<and> channels s = Inr ch \<and> py_len ch = Inr n
        \<and> block_len block \<noteq> Some n"
  show "isl (snd (add_component_data s (DataDict items)))"
  proof (rule add_component_data_raises)
    from a show "(nm, block) \<in> set items" by simp
    fix s' assume "grows s s'"
    with a have "channels s' = Inr ch" by (simp add: grows_def)
    with a show "validate_component s' nm block \<noteq> None" by (simp add: validate_len)
  qed
qed (simp_all add: add_A add_A_again, simp_all add: survey_A_def survey0_def group_A_def)

theorem add_component_data_checks_witness:
  "map_of (em_dataset (survey0\<lparr>em_dataset := [(''Channels'', VList [])]\<rparr>)) ''Channels''
      \<in> {None, Some VNone, Some (VList [])}
   \<and> isl (snd (add_component_data (survey0\<lparr>em_dataset := [(''Channels'', VList [])]\<rparr>) data_A))
   \<and> (''A'', BlockList [FloatData 21 20, FloatData 22 20])
        \<in> set [(''A'', BlockList [FloatData 21 20, FloatData 22 20])]
   \<and> ''A'' \<in> set (map pg_name (property_groups survey_A))
   \<and> isl (snd (add_component_data survey_A data_A))
   \<and> (''B'', BlockList [FloatData 21 20]) \<in> set [(''B'', BlockList [FloatData 21 20])]
   \<and> channels survey0 = Inr (VList [VFloat 1, VFloat 2])
   \<and> py_len (VList [VFloat 1, VFloat 2]) = Inr 2
   \<and> block_len (BlockList [FloatData 21 20]) \<noteq> Some 2
   \<and> isl (snd (add_component_data survey0 data_B))"
proof -
  have 1: "map_of (em_dataset (survey0\<lparr>em_dataset := [(''Channels'', VList [])]\<rparr>)) ''Channels''
      \<in> {None, Some VNone, Some (VList [])}" by simp
  have 2: "''A'' \<in> set (map pg_name (property_groups survey_A))"
    by (simp add: survey_A_def group_A_def)
  have 3: "channels survey0 = Inr (VList [VFloat 1, VFloat 2])"
    by (simp add: channels_def survey0_def)
  have 4: "block_len (BlockList [FloatData 21 20]) \<noteq> Some 2" by simp
  from add_component_data_checks
         [where s = "survey0\<lparr>em_dataset := [(''Channels'', VList [])]\<rparr>" and data = data_A] 1
  have a: "isl (snd (add_component_data (survey0\<lparr>em_dataset := [(''Channels'', VList [])]\<rparr>) data_A))"
    by blast
  from add_component_data_checks
         [where s = survey_A and nm = "''A''"
            and block = "BlockList [FloatData 21 20, FloatData 22 20]"
            and items = "[(''A'', BlockList [FloatData 21 20, FloatData 22 20])]"] 2
  have b: "isl (snd (add_component_data survey_A data_A))"
    by (simp add: data_A_def)
  from add_component_data_checks
         [where s = survey0 and nm = "''B''" and block = "BlockList [FloatData 21 20]"
            and items = "[(''B'', BlockList [FloatData 21 20])]"
            and ch = "VList [VFloat 1, VFloat 2]" and n = 2] 3 4
  have c: "isl (snd (add_component_data survey0 data_B))"
    by (simp add: data_B_def)
  from 1 2 3 4 a b c show ?thesis by simp
qed

text \<open>
  C4 (as amended). An error of the channels check, of the check of the argument's type or
  of the checks on the first component leaves the survey unchanged. An error of the checks
  on a later component leaves the survey as the components before it made it.
\<close>

theorem add_component_data_stops_at_first_error:
  "(channels s = Inl e \<longrightarrow> add_component_data s data = (s, Inl e))
   \<and> (channels s = Inr ch \<and> \<not> truthy ch \<longrightarrow> add_component_data s data = (s, Inl AttributeError))
   \<and> (channels s = Inr ch \<and> truthy ch \<longrightarrow> add_component_data s DataOther = (s, Inl TypeError))
   \<and> (channels s = Inr ch \<and> truthy ch \<and> validate_component s nm block = Some e \<longrightarrow>
        add_component_data s (DataDict ((nm, block) # rest)) = (s, Inl e))
   \<and> (add_component_data s (DataDict pre) = (sa, Inr gs)
        \<and> validate_component sa nm block = Some e \<longrightarrow>
        add_component_data s (DataDict (pre @ (nm, block) # rest)) = (sa, Inl e))"
proof (intro conjI impI)
  assume "add_component_data s (DataDict pre) = (sa, Inr gs)
        \<and> validate_component sa nm block = Some e"
  then show "add_component_data s (DataDict (pre @ (nm, block) # rest)) = (sa, Inl e)"
    by (auto simp: add_component_data_def split: sum.splits if_splits
             dest: add_components_stops)
next
  assume "channels s = Inr ch \<and> truthy ch \<and> validate_component s nm block = Some e"
  then show "add_component_data s (DataDict ((nm, block) # rest)) = (s, Inl e)"
    by (cases ch) (auto simp: add_component_data_def add_component_invalid)
next
  assume "channels s = Inr ch \<and> truthy ch"
  then show "add_component_data s DataOther = (s, Inl TypeError)"
    by (cases ch) (auto simp: add_component_data_def)
qed (auto simp: add_component_data_def)

theorem add_component_data_stops_at_first_error_witness:
  "channels survey0 = Inr (VList [VFloat 1, VFloat 2]) \<and> truthy (VList [VFloat 1, VFloat 2])
   \<and> validate_component survey0 ''B'' (BlockList [FloatData 21 20]) = Some ValueError
   \<and> add_component_data survey0 data_B = (survey0, Inl ValueError)
   \<and> add_component_data survey0 data_A = (survey_A, Inr [group_A])
   \<and> validate_component survey_A ''B'' (BlockList [FloatData 21 20]) = Some ValueError
   \<and> add_component_data survey0 data_AB = (survey_A, Inl ValueError)"
proof -
  have 1: "channels survey0 = Inr (VList [VFloat 1, VFloat 2])"
    by (simp add: channels_def survey0_def)
  have 2: "validate_component survey0 ''B'' (BlockList [FloatData 21 20]) = Some ValueError"
    by (simp add: validate_component_def channels_def survey0_def)
  have 3: "validate_component survey_A ''B'' (BlockList [FloatData 21 20]) = Some ValueError"
    by (simp add: validate_component_def channels_def survey_A_def survey0_def group_A_def)
  have 4: "add_component_data survey0 (DataDict [(''A'', BlockList [FloatData 21 20, FloatData 22 20])])
             = (survey_A, Inr [group_A])"
    using add_A by (simp add: data_A_def)
  from add_component_data_stops_at_first_error
         [where s = survey0 and ch = "VList [VFloat 1, VFloat 2]" and nm = "''B''"
            and block = "BlockList [FloatData 21 20]" and e = ValueError and rest = "[]"] 1 2
  have a: "add_component_data survey0 data_B = (survey0, Inl ValueError)"
    by (simp add: data_B_def)
  from add_component_data_stops_at_first_error
         [where s = survey0 and nm = "''B''" and block = "BlockList [FloatData 21 20]"
            and e = ValueError and sa = survey_A and gs = "[group_A]" and rest = "[]"
            and pre = "[(''A'', BlockList [FloatData 21 20, FloatData 22 20])]"]
       3 4
  have b: "add_component_data survey0 data_AB = (survey_A, Inl ValueError)"
    by (simp add: data_AB_def)
  from 1 2 3 4 a b show ?thesis by (simp add: data_A_def)
qed

text \<open>
  The claim as stated fails: with the components "A" (valid) and "B" (one entry for two
  channels), the call raises for "B" after the property group "A" was created and recorded
  in the metadata.
\<close>

theorem add_component_data_partial_counterexample:
  "add_component_data survey0 data_AB = (survey_A, Inl ValueError)
   \<and> property_groups survey0 = [] \<and> property_groups survey_A = [group_A]
   \<and> map_of (em_dataset survey0) ''Property groups'' = Some (VList [])
   \<and> map_of (em_dataset survey_A) ''Property groups'' = Some (VList [VStr ''A''])
   \<and> survey_A \<noteq> survey0"
proof -
  have "property_groups survey_A \<noteq> property_groups survey0"
    by (simp add: survey_A_def survey0_def)
  then have "survey_A \<noteq> survey0" by auto
  then show ?thesis
    by (simp add: add_AB) (simp add: survey_A_def survey0_def)
qed

section \<open>Properties of the renumbering of transmitter ids\<close>

text \<open>
  The dictionary of a comprehension holds, for each key, the value met last. So
  \<^verbatim>\<open>value_map\<close> sends the i-th smallest transmitter id to i + 1, whatever that id is:
  0 is sent to 0 when it is not among the transmitter ids, and to its rank otherwise.
\<close>

lemma map_of_foldl_update:
  "map_of (foldl (\<lambda>d (k, v). AList.update k v d) d0 kvs) = map_of (rev kvs @ d0)"
proof (induction kvs arbitrary: d0)
  case Nil
  show ?case by simp
next
  case (Cons kv kvs)
  obtain k v where kv: "kv = (k, v)" by (cases kv)
  show ?case
    by (simp add: kv Cons.IH update_conv' map_add_def fun_eq_iff split: option.splits)
qed

lemma map_of_dict_of: "map_of (dict_of kvs) = map_of (rev kvs)"
  by (simp add: dict_of_def map_of_foldl_update)

lemma zip_swap: "map (\<lambda>(a, b). (b, a)) (zip xs ys) = zip ys xs"
proof (induction xs arbitrary: ys)
  case Nil
  show ?case by simp
next
  case (Cons x xs)
  show ?case by (cases ys) (simp_all add: Cons.IH)
qed

lemma upt_from_one: "map int [0..<Suc n] = 0 # map int [1..<Suc n]"
  by (simp add: upt_rec [of 0] del: upt_Suc)

lemma value_map_pairs:
  "value_map tx = dict_of ((0, 0) # zip (unique tx) (map int [1..<Suc (length (unique tx))]))"
  unfolding value_map_def enumerate_from0_def length_Cons upt_from_one
  by (simp only: zip_Cons_Cons list.map prod.case zip_swap)

lemma map_of_rev_distinct:
  "distinct (map fst kvs) \<Longrightarrow> map_of (rev kvs) = map_of kvs"
proof (induction kvs)
  case Nil
  show ?case by simp
next
  case (Cons kv kvs)
  obtain k v where kv: "kv = (k, v)" by (cases kv)
  from Cons.prems kv have nk: "map_of kvs k = None"
    by (simp add: map_of_eq_None_iff)
  from Cons have ih: "map_of (rev kvs) = map_of kvs" by simp
  show ?case
    by (rule ext) (simp add: kv ih nk map_add_def split: option.splits)
qed

lemma unique_distinct: "distinct (unique tx)"
  by (simp add: unique_def)

lemma unique_set: "set (unique tx) = set tx"
  by (simp add: unique_def)

lemma value_map_lookup:
  "map_of (value_map tx) k =
     (case map_of (zip (unique tx) (map int [1..<Suc (length (unique tx))])) k of
        Some i \<Rightarrow> Some i
      | None \<Rightarrow> if k = 0 then Some 0 else None)"
proof -
  have "distinct (map fst (zip (unique tx) (map int [1..<Suc (length (unique tx))])))"
    by (simp add: unique_distinct)
  then have "map_of (rev (zip (unique tx) (map int [1..<Suc (length (unique tx))])))
        = map_of (zip (unique tx) (map int [1..<Suc (length (unique tx))]))"
    by (rule map_of_rev_distinct)
  then show ?thesis
    by (simp add: value_map_pairs map_of_dict_of map_add_def split: option.splits)
qed

lemma value_map_zero_fresh:
  assumes "0 \<notin> set tx"
  shows "map_of (value_map tx) 0 = Some 0"
proof -
  from assms have "0 \<notin> set (unique tx)" by (simp add: unique_set)
  then have "map_of (zip (unique tx) (map int [1..<Suc (length (unique tx))])) 0 = None"
    by (simp add: map_of_zip_is_None)
  then show ?thesis by (simp add: value_map_lookup)
qed

lemma value_map_rank:
  assumes "i < length (unique tx)"
  shows "map_of (value_map tx) (unique tx ! i) = Some (int i + 1)"
proof -
  have "map_of (zip (unique tx) (map int [1..<Suc (length (unique tx))])) (unique tx ! i)
          = Some (map int [1..<Suc (length (unique tx))] ! i)"
    using assms by (intro map_of_zip_nth) (simp_all add: unique_distinct)
  moreover have "map int [1..<Suc (length (unique tx))] ! i = int i + 1"
    using assms by (simp del: upt_Suc)
  ultimately show ?thesis by (simp add: value_map_lookup)
qed

lemma value_map_zero_taken:
  assumes "0 \<in> set tx"
  shows "\<exists>i. map_of (value_map tx) 0 = Some (int i + 1)"
proof -
  from assms have "0 \<in> set (unique tx)" by (simp add: unique_set)
  then obtain i where "i < length (unique tx)" "unique tx ! i = 0"
    by (auto simp: in_set_conv_nth)
  with value_map_rank [of i tx] show ?thesis by auto
qed


end
